theory Spec2Isabelle
  imports Complex_Main "HOL-Library.Multiset" "HOL-Library.Char_ord" "HOL-Library.List_Lexorder"
begin

section \<open>JavaScript values\<close>

text \<open>
  A JavaScript number: a finite value, one of the two infinities, or \<open>NaN\<close>. A finite
  value is kept as the real number it denotes.
\<close>

datatype jsnum = Num real | PosInf | NegInf | NaN

text \<open>
  A string is the list of its code units; the characters of HOL cover the units
  below 256.
\<close>

text \<open>
  The values that reach the store from its callers (the arguments of the actions), from
  the API and from storage (parsed JSON): \<open>undefined\<close>, \<open>null\<close>, booleans, numbers,
  strings, arrays and plain objects (an object is its list of own properties).
\<close>

datatype jsval =
    JUndefined
  | JNull
  | JBool bool
  | JNum jsnum
  | JStr string
  | JArr "jsval list"
  | JObj "(string \<times> jsval) list"

text \<open>The truthiness test of \<open>!v\<close>, \<open>v && ...\<close> and \<open>v || ...\<close>.\<close>

fun truthy :: "jsval \<Rightarrow> bool" where
  "truthy JUndefined = False"
| "truthy JNull = False"
| "truthy (JBool b) = b"
| "truthy (JNum NaN) = False"
| "truthy (JNum (Num r)) = (r \<noteq> 0)"
| "truthy (JNum PosInf) = True"
| "truthy (JNum NegInf) = True"
| "truthy (JStr s) = (s \<noteq> [])"
| "truthy (JArr xs) = True"
| "truthy (JObj kvs) = True"

text \<open>\<open>v == null\<close> and the left operand test of \<open>v ?? d\<close>: \<open>null\<close> or \<open>undefined\<close>.\<close>

fun nullish :: "jsval \<Rightarrow> bool" where
  "nullish JUndefined = True"
| "nullish JNull = True"
| "nullish v = False"

text \<open>
  \<open>n && typeof n === 'object'\<close>: \<open>typeof\<close> answers \<open>'object'\<close> for objects, arrays and
  \<open>null\<close>, and \<open>null\<close> is falsy.
\<close>

fun isObject :: "jsval \<Rightarrow> bool" where
  "isObject (JArr xs) = True"
| "isObject (JObj kvs) = True"
| "isObject v = False"

text \<open>
  \<open>v?.k\<close> for the property names the store reads (those of a record and of the
  state): an own property of an object, \<open>undefined\<close> on every other value.
\<close>

fun getProp :: "jsval \<Rightarrow> string \<Rightarrow> jsval" where
  "getProp (JObj kvs) k = (case map_of kvs k of Some v \<Rightarrow> v | None \<Rightarrow> JUndefined)"
| "getProp v k = JUndefined"

text \<open>
  What is thrown: an \<open>Error\<close> object with its message, or any other value (one that is
  falsy or has no truthy \<open>message\<close>).
\<close>

datatype thrown = JsError string | NonError

text \<open>\<open>e && e.message ? e.message : 'Unknown error'\<close> of \<open>_runAsync\<close>.\<close>

fun failureMessage :: "thrown \<Rightarrow> string" where
  "failureMessage (JsError m) = (if m \<noteq> [] then m else ''Unknown error'')"
| "failureMessage NonError = ''Unknown error''"

section \<open>The host\<close>

text \<open>
  What the module reads from its surroundings when it is loaded and while it runs:
  \<open>USE_API\<close> is \<open>!!API_BASE\<close>; \<open>hasWindow\<close> is \<open>typeof window !== 'undefined'\<close>;
  \<open>setItemOk\<close> tells whether \<open>localStorage.setItem\<close> returns (it throws when the quota
  is exceeded, and \<open>writeToLocalStorage\<close> catches that). The other fields are the
  language's own: \<open>String_other\<close> and \<open>Number_other\<close> are the conversions \<open>String(v)\<close>
  of a value that is not a string and \<open>Number(v)\<close> of a value that is not a number,
  \<open>toLowerCase\<close> is the method of that name on strings, and \<open>nullPatternMessage\<close> is
  the engine's wording of the \<open>TypeError\<close> it throws when \<open>null\<close> is matched against
  an object pattern.
\<close>

record host =
  USE_API :: bool
  hasWindow :: bool
  setItemOk :: bool
  String_other :: "jsval \<Rightarrow> string"
  Number_other :: "jsval \<Rightarrow> jsnum"
  toLowerCase :: "string \<Rightarrow> string"
  nullPatternMessage :: string

definition js_String :: "host \<Rightarrow> jsval \<Rightarrow> string" where
  "js_String h v = (case v of JStr s \<Rightarrow> s | _ \<Rightarrow> String_other h v)"

definition js_Number :: "host \<Rightarrow> jsval \<Rightarrow> jsnum" where
  "js_Number h v = (case v of JNum n \<Rightarrow> n | _ \<Rightarrow> Number_other h v)"

text \<open>
  What one action receives while it runs: the outcome of the single \<open>fetch\<close> it issues,
  the results of its calls of \<open>uid()\<close> and of \<open>Date.now()\<close> (numbered by call site and
  element).
\<close>

datatype fetch_result =
    Rejected thrown
  | Response bool nat "string option" "jsval option"

record io =
  fetched :: fetch_result
  uid :: "nat \<Rightarrow> string"
  now :: "nat \<Rightarrow> real"

text \<open>The decimal digits of a status code, for the message of a failed request.\<close>

definition digitChar :: "nat \<Rightarrow> char" where
  "digitChar d = char_of (of_char CHR ''0'' + d)"

fun decimal :: "nat \<Rightarrow> string" where
  "decimal n = (if n div 10 = 0 then [digitChar n] else decimal (n div 10) @ [digitChar (n mod 10)])"

text \<open>
  \<open>apiFetch\<close>: \<open>Response ok status text json\<close> is a response whose \<open>text()\<close> gives
  \<open>text\<close> (\<open>None\<close> when it rejects, caught as \<open>''\<close>) and whose \<open>json()\<close> gives \<open>json\<close>
  (\<open>None\<close> when it rejects, caught as \<open>null\<close>).
\<close>

fun apiFetch :: "fetch_result \<Rightarrow> thrown + jsval" where
  "apiFetch (Rejected e) = Inl e"
| "apiFetch (Response ok status text json) =
     (if \<not> ok then
        (let t = (case text of None \<Rightarrow> [] | Some s \<Rightarrow> s) in
         Inl (JsError (if t \<noteq> [] then t
                       else ''Request failed with status '' @ decimal status)))
      else (case json of Some d \<Rightarrow> Inr d | None \<Rightarrow> Inr JNull))"

section \<open>State and store\<close>

record Note =
  note_id :: string
  title :: string
  content :: string
  updatedAt :: jsnum
  createdAt :: jsnum

record state =
  "notes" :: "Note list"
  selectedNoteId :: "string option"
  loading :: bool
  error :: "string option"

definition defaultState :: state where
  "defaultState = \<lparr>notes = [], selectedNoteId = None, loading = False, error = None\<rparr>"

text \<open>
  What \<open>localStorage\<close> holds under \<open>LS_KEY\<close>: nothing, a text that is empty or that
  \<open>JSON.parse\<close> refuses, or a text that parses, given as the value it parses to.
\<close>

datatype item = NoItem | BadText | Json jsval

text \<open>
  The store with what it acts on: \<open>st\<close> is \<open>this._state\<close>, \<open>ls\<close> the item under
  \<open>LS_KEY\<close>, \<open>emitted\<close> the snapshots handed to the subscribers, oldest first.
\<close>

record store =
  st :: state
  ls :: item
  emitted :: "state list"

text \<open>
  \<open>readFromLocalStorage\<close>: \<open>null\<close> (here \<open>None\<close>) when there is no text, when parsing
  throws, and when the parsed value fails \<open>parsed && typeof parsed === 'object'\<close>.
\<close>

fun readFromLocalStorage :: "item \<Rightarrow> jsval option" where
  "readFromLocalStorage NoItem = None"
| "readFromLocalStorage BadText = None"
| "readFromLocalStorage (Json parsed) = (if isObject parsed then Some parsed else None)"

text \<open>
  \<open>JSON.stringify\<close> of a state, as the value its text parses to. A number that is not
  finite is written as \<open>null\<close>. The order of the keys, which nothing reads, is fixed
  here.
\<close>

fun numJson :: "jsnum \<Rightarrow> jsval" where
  "numJson (Num r) = JNum (Num r)"
| "numJson n = JNull"

definition optJson :: "string option \<Rightarrow> jsval" where
  "optJson v = (case v of None \<Rightarrow> JNull | Some s \<Rightarrow> JStr s)"

definition noteJson :: "Note \<Rightarrow> jsval" where
  "noteJson n =
     JObj [(''id'', JStr (note_id n)), (''title'', JStr (title n)),
           (''content'', JStr (content n)), (''updatedAt'', numJson (updatedAt n)),
           (''createdAt'', numJson (createdAt n))]"

definition stateJson :: "state \<Rightarrow> jsval" where
  "stateJson s =
     JObj [(''notes'', JArr (map noteJson (notes s))),
           (''selectedNoteId'', optJson (selectedNoteId s)),
           (''loading'', JBool (loading s)),
           (''error'', optJson (error s))]"

text \<open>
  A parsed value read as a field of the state. The store takes whatever the persisted
  object holds; the state of this development is typed, so a value of another type
  than the field has is answered with \<open>None\<close>: the store would run on with it, and
  what it does then is not described here.
\<close>

fun asString :: "jsval \<Rightarrow> string option" where
  "asString (JStr s) = Some s"
| "asString v = None"

fun asNumber :: "jsval \<Rightarrow> jsnum option" where
  "asNumber (JNum n) = Some n"
| "asNumber v = None"

fun asStringOrNull :: "jsval \<Rightarrow> string option option" where
  "asStringOrNull JNull = Some None"
| "asStringOrNull (JStr s) = Some (Some s)"
| "asStringOrNull v = None"

fun asBool :: "jsval \<Rightarrow> bool option" where
  "asBool (JBool b) = Some b"
| "asBool v = None"

definition asNote :: "jsval \<Rightarrow> Note option" where
  "asNote v =
     (case (asString (getProp v ''id''), asString (getProp v ''title''),
            asString (getProp v ''content''), asNumber (getProp v ''updatedAt''),
            asNumber (getProp v ''createdAt'')) of
        (Some i, Some t, Some c, Some u, Some d) \<Rightarrow>
          Some \<lparr>note_id = i, title = t, content = c, updatedAt = u, createdAt = d\<rparr>
      | _ \<Rightarrow> None)"

fun asNotes :: "jsval \<Rightarrow> Note list option" where
  "asNotes (JArr vs) = those (map asNote vs)"
| "asNotes v = None"

text \<open>
  \<open>{ ...defaultState, ...persisted }\<close>: a key the persisted object has overrides the
  default. Keys that are not of the state are carried along by the store and read by
  nothing; they are dropped here.
\<close>

definition mergePersisted :: "jsval \<Rightarrow> state option" where
  "mergePersisted persisted =
     (case ((case getProp persisted ''notes'' of
               JUndefined \<Rightarrow> Some (notes defaultState) | v \<Rightarrow> asNotes v),
            (case getProp persisted ''selectedNoteId'' of
               JUndefined \<Rightarrow> Some (selectedNoteId defaultState) | v \<Rightarrow> asStringOrNull v),
            (case getProp persisted ''loading'' of
               JUndefined \<Rightarrow> Some (loading defaultState) | v \<Rightarrow> asBool v),
            (case getProp persisted ''error'' of
               JUndefined \<Rightarrow> Some (error defaultState) | v \<Rightarrow> asStringOrNull v)) of
        (Some ns, Some sel, Some l, Some e) \<Rightarrow>
          Some \<lparr>notes = ns, selectedNoteId = sel, loading = l, error = e\<rparr>
      | _ \<Rightarrow> None)"

text \<open>\<open>initialState\<close>, made when the module is loaded.\<close>

definition initialState :: "host \<Rightarrow> item \<Rightarrow> state option" where
  "initialState h it =
     (if \<not> USE_API h \<and> hasWindow h then
        (case readFromLocalStorage it of
           Some persisted \<Rightarrow> mergePersisted persisted
         | None \<Rightarrow> Some defaultState)
      else Some defaultState)"

definition writeToLocalStorage :: "host \<Rightarrow> state \<Rightarrow> store \<Rightarrow> store" where
  "writeToLocalStorage h s w = (if setItemOk h then w\<lparr>ls := Json (stateJson s)\<rparr> else w)"

definition emit :: "host \<Rightarrow> store \<Rightarrow> store" where
  "emit h w =
     (let w1 = (if \<not> USE_API h \<and> hasWindow h then writeToLocalStorage h (st w) w else w)
      in w1\<lparr>emitted := emitted w1 @ [st w1]\<rparr>)"

definition setState :: "host \<Rightarrow> (state \<Rightarrow> state) \<Rightarrow> store \<Rightarrow> store" where
  "setState h patch w = emit h (w\<lparr>st := patch (st w)\<rparr>)"

text \<open>
  \<open>_runAsync\<close>: \<open>fn\<close> returns \<open>Inl e\<close> when it throws \<open>e\<close> and \<open>Inr v\<close> when it completes,
  \<open>v\<close> being what it assigned to the variable of the enclosing action.
\<close>

definition runAsync ::
  "host \<Rightarrow> (store \<Rightarrow> (thrown + 'a) \<times> store) \<Rightarrow> store \<Rightarrow> (thrown + 'a) \<times> store" where
  "runAsync h fn w =
     (let w1 = setState h (\<lambda>s. s\<lparr>loading := True, error := None\<rparr>) w;
          (r, w2) = fn w1;
          w3 = (case r of
                  Inl e \<Rightarrow> setState h (\<lambda>s. s\<lparr>error := Some (failureMessage e)\<rparr>) w2
                | Inr v \<Rightarrow> w2)
      in (r, setState h (\<lambda>s. s\<lparr>loading := False\<rparr>) w3))"

section \<open>Actions\<close>

text \<open>
  The record built from one entry of the \<open>GET /notes\<close> answer: \<open>i\<close> is the entry's
  index in the filtered array, which numbers its calls of \<open>uid()\<close> and \<open>Date.now()\<close>.
\<close>

definition normalizeNote :: "host \<Rightarrow> io \<Rightarrow> nat \<Rightarrow> jsval \<Rightarrow> Note" where
  "normalizeNote h x i n =
     \<lparr>note_id = (if nullish (getProp n ''id'') then uid x i
                 else js_String h (getProp n ''id'')),
      title = (if nullish (getProp n ''title'') then []
               else js_String h (getProp n ''title'')),
      content = (if nullish (getProp n ''content'') then []
                 else js_String h (getProp n ''content'')),
      updatedAt = (if nullish (getProp n ''updatedAt'') then Num (now x (2 * i))
                   else js_Number h (getProp n ''updatedAt'')),
      createdAt = (if nullish (getProp n ''createdAt'') then Num (now x (2 * i + 1))
                   else js_Number h (getProp n ''createdAt''))\<rparr>"

definition loadNotes_fn :: "host \<Rightarrow> io \<Rightarrow> store \<Rightarrow> (thrown + unit) \<times> store" where
  "loadNotes_fn h x w =
     (if \<not> USE_API h then (Inr (), emit h w)
      else (case apiFetch (fetched x) of
              Inl e \<Rightarrow> (Inl e, w)
            | Inr data \<Rightarrow>
                (case data of
                   JArr xs \<Rightarrow>
                     (Inr (),
                      setState h
                        (\<lambda>s. s\<lparr>notes := map (\<lambda>(i, n). normalizeNote h x i n)
                                            (enumerate 0 (filter isObject xs))\<rparr>) w)
                 | _ \<Rightarrow> (Inl (JsError ''Invalid response from server.''), w))))"

text \<open>
  An action returns what its promise settles to: \<open>Inl e\<close> is a promise rejected with
  \<open>e\<close>, \<open>Inr v\<close> one fulfilled with \<open>v\<close>. Each action is run alone, from its call to
  the settling of its promise.
\<close>

definition loadNotes :: "host \<Rightarrow> io \<Rightarrow> store \<Rightarrow> (thrown + unit) \<times> store" where
  "loadNotes h x w = (let (r, w') = runAsync h (loadNotes_fn h x) w in (Inr (), w'))"

text \<open>
  The function \<open>addNote\<close> hands to \<open>_runAsync\<close>; \<open>title0\<close> and \<open>content0\<close> are the
  parameters \<open>title\<close> and \<open>content\<close> as bound.
\<close>

definition addNote_fn ::
  "host \<Rightarrow> io \<Rightarrow> jsval \<Rightarrow> jsval \<Rightarrow> store \<Rightarrow> (thrown + Note) \<times> store" where
  "addNote_fn h x title0 content0 w =
     (let base_title = js_String h title0;
          base_content = js_String h content0;
          finish = (\<lambda>created.
            (Inr created,
             setState h (\<lambda>s. s\<lparr>notes := notes (st w) @ [created],
                                 selectedNoteId := Some (note_id created)\<rparr>) w))
      in if USE_API h then
           (case apiFetch (fetched x) of
              Inl e \<Rightarrow> (Inl e, w)
            | Inr data \<Rightarrow>
                finish
                  \<lparr>note_id = (if nullish (getProp data ''id'') then uid x 0
                              else js_String h (getProp data ''id'')),
                   title = (if nullish (getProp data ''title'') then base_title
                            else js_String h (getProp data ''title'')),
                   content = (if nullish (getProp data ''content'') then base_content
                              else js_String h (getProp data ''content'')),
                   updatedAt = (if nullish (getProp data ''updatedAt'') then Num (now x 0)
                                else js_Number h (getProp data ''updatedAt'')),
                   createdAt = (if nullish (getProp data ''createdAt'') then Num (now x 1)
                                else js_Number h (getProp data ''createdAt''))\<rparr>)
         else
           finish
             \<lparr>note_id = uid x 0, title = base_title, content = base_content,
              updatedAt = Num (now x 0), createdAt = Num (now x 0)\<rparr>)"

text \<open>
  The parameter \<open>{ title = '', content = '' } = {}\<close> of \<open>addNote\<close>: a missing argument
  is \<open>{}\<close>, and a property that is \<open>undefined\<close> takes its default \<open>''\<close>. Matching
  \<open>null\<close> throws before the body starts, so the promise is rejected.
\<close>

definition paramOr :: "jsval \<Rightarrow> string \<Rightarrow> jsval" where
  "paramOr arg k =
     (case getProp (if arg = JUndefined then JObj [] else arg) k of
        JUndefined \<Rightarrow> JStr []
      | v \<Rightarrow> v)"

definition addNote ::
  "host \<Rightarrow> io \<Rightarrow> jsval \<Rightarrow> store \<Rightarrow> (thrown + Note option) \<times> store" where
  "addNote h x arg w =
     (if arg = JNull then (Inl (JsError (nullPatternMessage h)), w)
      else (let (r, w') = runAsync h
                            (addNote_fn h x (paramOr arg ''title'') (paramOr arg ''content'')) w
            in (Inr (case r of Inl e \<Rightarrow> None | Inr created \<Rightarrow> Some created), w')))"

text \<open>
  \<open>updateNote\<close>: \<open>n.id === id\<close> holds when \<open>id\<close> is the string \<open>n.id\<close>. A canonical
  record has a number as \<open>createdAt\<close>, so the last default of its \<open>createdAt\<close> chain is
  never taken.
\<close>

definition updateNote_fn ::
  "host \<Rightarrow> io \<Rightarrow> jsval \<Rightarrow> string option \<Rightarrow> string option \<Rightarrow> store
     \<Rightarrow> (thrown + Note) \<times> store" where
  "updateNote_fn h x id0 title0 content0 w =
     (case find (\<lambda>n. JStr (note_id n) = id0) (notes (st w)) of
        None \<Rightarrow> (Inl (JsError ''Note not found''), w)
      | Some existing \<Rightarrow>
          (let payload_title = (case title0 of None \<Rightarrow> title existing | Some t \<Rightarrow> t);
               payload_content = (case content0 of None \<Rightarrow> content existing | Some c \<Rightarrow> c);
               finish = (\<lambda>updated.
                 (Inr updated,
                  setState h
                    (\<lambda>s. s\<lparr>notes := map (\<lambda>n. if JStr (note_id n) = id0 then updated else n)
                                        (notes (st w))\<rparr>) w))
           in if USE_API h then
                (case apiFetch (fetched x) of
                   Inl e \<Rightarrow> (Inl e, w)
                 | Inr data \<Rightarrow>
                     finish
                       \<lparr>note_id = (if nullish (getProp data ''id'') then js_String h id0
                                   else js_String h (getProp data ''id'')),
                        title = (if nullish (getProp data ''title'') then payload_title
                                 else js_String h (getProp data ''title'')),
                        content = (if nullish (getProp data ''content'') then payload_content
                                   else js_String h (getProp data ''content'')),
                        updatedAt = (if nullish (getProp data ''updatedAt'') then Num (now x 0)
                                     else js_Number h (getProp data ''updatedAt'')),
                        createdAt = (if nullish (getProp data ''createdAt'')
                                     then createdAt existing
                                     else js_Number h (getProp data ''createdAt''))\<rparr>)
              else
                finish (existing\<lparr>title := payload_title, content := payload_content,
                                  updatedAt := Num (now x 0)\<rparr>)))"

definition updateNote ::
  "host \<Rightarrow> io \<Rightarrow> jsval \<Rightarrow> string option \<Rightarrow> string option \<Rightarrow> store
     \<Rightarrow> (thrown + Note option) \<times> store" where
  "updateNote h x id0 title0 content0 w =
     (if \<not> truthy id0 then (Inl (JsError ''updateNote requires an id''), w)
      else (let (r, w') = runAsync h (updateNote_fn h x id0 title0 content0) w
            in (Inr (case r of Inl e \<Rightarrow> None | Inr updated \<Rightarrow> Some updated), w')))"

text \<open>\<open>selectedNoteId\<close> as the value \<open>===\<close> compares: a string or \<open>null\<close>.\<close>

definition idVal :: "string option \<Rightarrow> jsval" where
  "idVal sel = (case sel of None \<Rightarrow> JNull | Some s \<Rightarrow> JStr s)"

definition deleteNote_fn :: "host \<Rightarrow> io \<Rightarrow> jsval \<Rightarrow> store \<Rightarrow> (thrown + bool) \<times> store" where
  "deleteNote_fn h x id0 w =
     (if \<not> list_ex (\<lambda>n. JStr (note_id n) = id0) (notes (st w))
      then (Inl (JsError ''Note not found''), w)
      else
        (let remaining = filter (\<lambda>n. JStr (note_id n) \<noteq> id0) (notes (st w));
             sel = (if idVal (selectedNoteId (st w)) = id0
                    then (case remaining of [] \<Rightarrow> None | n # ns \<Rightarrow> Some (note_id n))
                    else selectedNoteId (st w));
             finish = (Inr True,
                       setState h (\<lambda>s. s\<lparr>notes := remaining, selectedNoteId := sel\<rparr>) w)
         in if USE_API h then
              (case apiFetch (fetched x) of Inl e \<Rightarrow> (Inl e, w) | Inr data \<Rightarrow> finish)
            else finish))"

definition deleteNote :: "host \<Rightarrow> io \<Rightarrow> jsval \<Rightarrow> store \<Rightarrow> (thrown + bool) \<times> store" where
  "deleteNote h x id0 w =
     (if \<not> truthy id0 then (Inl (JsError ''deleteNote requires an id''), w)
      else (let (r, w') = runAsync h (deleteNote_fn h x id0) w
            in (Inr (case r of Inl e \<Rightarrow> False | Inr ok \<Rightarrow> ok), w')))"

text \<open>
  \<open>selectNote\<close>: in its last branch \<open>id\<close> has matched a record, so it is a string.
\<close>

definition selectNote :: "host \<Rightarrow> jsval \<Rightarrow> store \<Rightarrow> store" where
  "selectNote h id0 w =
     (if nullish id0 then setState h (\<lambda>s. s\<lparr>selectedNoteId := None\<rparr>) w
      else if \<not> list_ex (\<lambda>n. JStr (note_id n) = id0) (notes (st w))
      then setState h (\<lambda>s. s\<lparr>error := Some ''Note not found''\<rparr>) w
      else setState h (\<lambda>s. s\<lparr>selectedNoteId := (case id0 of JStr i \<Rightarrow> Some i | _ \<Rightarrow> None)\<rparr>) w)"

section \<open>Selectors\<close>

text \<open>\<open>x || 0\<close> on a number: \<open>NaN\<close> and \<open>0\<close> are falsy.\<close>

fun orZero :: "jsnum \<Rightarrow> jsnum" where
  "orZero NaN = Num 0"
| "orZero n = n"

text \<open>
  \<open>a - b\<close> on numbers. The difference of two finite numbers is taken exactly:
  rounding changes neither its sign nor whether it is \<open>0\<close>.
\<close>

fun minus_js :: "jsnum \<Rightarrow> jsnum \<Rightarrow> jsnum" where
  "minus_js NaN b = NaN"
| "minus_js a NaN = NaN"
| "minus_js (Num a) (Num b) = Num (a - b)"
| "minus_js (Num a) PosInf = NegInf"
| "minus_js (Num a) NegInf = PosInf"
| "minus_js PosInf PosInf = NaN"
| "minus_js PosInf b = PosInf"
| "minus_js NegInf NegInf = NaN"
| "minus_js NegInf b = NegInf"

text \<open>
  The comparator of \<open>sortedNotes\<close>. A title is a string, so \<open>a.title || ''\<close> is the
  title. Strings compare by their code units, position by position.
\<close>

definition compareNotes :: "host \<Rightarrow> Note \<Rightarrow> Note \<Rightarrow> jsnum" where
  "compareNotes h a b =
     (let t = minus_js (orZero (updatedAt b)) (orZero (updatedAt a)) in
      if t \<noteq> Num 0 then t
      else (let ta = toLowerCase h (title a); tb = toLowerCase h (title b) in
            if ta < tb then Num (- 1) else if ta > tb then Num 1 else Num 0))"

text \<open>
  \<open>Array.prototype.sort\<close> with a comparator, as the language defines it: a stable sort,
  here by insertion, that puts \<open>x\<close> before \<open>y\<close> unless the comparator answers a positive
  number. An answer \<open>NaN\<close> counts as \<open>+0\<close>.
\<close>

fun notPositive :: "jsnum \<Rightarrow> bool" where
  "notPositive (Num r) = (r \<le> 0)"
| "notPositive PosInf = False"
| "notPositive NegInf = True"
| "notPositive NaN = True"

fun insertBy :: "('a \<Rightarrow> 'a \<Rightarrow> jsnum) \<Rightarrow> 'a \<Rightarrow> 'a list \<Rightarrow> 'a list" where
  "insertBy cmp x [] = [x]"
| "insertBy cmp x (y # ys) =
     (if notPositive (cmp x y) then x # y # ys else y # insertBy cmp x ys)"

fun sortBy :: "('a \<Rightarrow> 'a \<Rightarrow> jsnum) \<Rightarrow> 'a list \<Rightarrow> 'a list" where
  "sortBy cmp [] = []"
| "sortBy cmp (x # xs) = insertBy cmp x (sortBy cmp xs)"

definition sortedNotes :: "host \<Rightarrow> state \<Rightarrow> Note list" where
  "sortedNotes h s = sortBy (compareNotes h) (notes s)"

definition selectedNote :: "state \<Rightarrow> Note option" where
  "selectedNote s =
     (case selectedNoteId s of
        None \<Rightarrow> None
      | Some i \<Rightarrow> (if i = [] then None else find (\<lambda>n. note_id n = i) (notes s)))"

section \<open>The vocabulary of the specification\<close>

text \<open>
  The time a record is sorted by is its \<open>updatedAt\<close>, a missing or unusable one counting
  as \<open>0\<close>. \<open>later a b\<close> says that \<open>a\<close> is the greater of two such numbers.
\<close>

fun rank :: "jsnum \<Rightarrow> int" where
  "rank NegInf = - 1"
| "rank PosInf = 1"
| "rank n = 0"

fun finitePart :: "jsnum \<Rightarrow> real" where
  "finitePart (Num r) = r"
| "finitePart n = 0"

definition later :: "jsnum \<Rightarrow> jsnum \<Rightarrow> bool" where
  "later a b = (rank a > rank b \<or> (rank a = rank b \<and> finitePart a > finitePart b))"

definition stamp :: "Note \<Rightarrow> jsnum" where
  "stamp n = orZero (updatedAt n)"

fun isFinite :: "jsnum \<Rightarrow> bool" where
  "isFinite (Num r) = True"
| "isFinite n = False"

text \<open>
  The order the specification states: \<open>updatedAt\<close> descending, then the title ascending
  without regard to case.
\<close>

definition specOrder :: "host \<Rightarrow> Note \<Rightarrow> Note \<Rightarrow> bool" where
  "specOrder h a b =
     (later (stamp a) (stamp b) \<or>
      (stamp a = stamp b \<and> toLowerCase h (title a) \<le> toLowerCase h (title b)))"

text \<open>
  The order the comparator decides: the same, except that two records whose times are
  the same infinity are tied whatever their titles. \<open>tieKey\<close> is what this order looks
  at: two records are tied when their keys agree.
\<close>

definition inOrder :: "host \<Rightarrow> Note \<Rightarrow> Note \<Rightarrow> bool" where
  "inOrder h a b =
     (later (stamp a) (stamp b) \<or>
      (stamp a = stamp b \<and>
       (\<not> isFinite (stamp a) \<or> toLowerCase h (title a) \<le> toLowerCase h (title b))))"

definition tieKey :: "host \<Rightarrow> Note \<Rightarrow> jsnum \<times> string" where
  "tieKey h n = (stamp n, if isFinite (stamp n) then toLowerCase h (title n) else [])"



text \<open>
  The host on which an emission writes the state to storage: no API, a window, and a
  storage that accepts the write.
\<close>

definition persisting :: "host \<Rightarrow> bool" where
  "persisting h = (\<not> USE_API h \<and> hasWindow h \<and> setItemOk h)"

text \<open>
  The canonical shape of a persisted record: \<open>id\<close>, \<open>title\<close> and \<open>content\<close> are strings,
  \<open>updatedAt\<close> and \<open>createdAt\<close> are numbers. A record of the store is written in that
  shape when its two times are finite.
\<close>

definition canonicalNote :: "jsval \<Rightarrow> bool" where
  "canonicalNote v = (case asNote v of Some n \<Rightarrow> True | None \<Rightarrow> False)"

definition finiteTimes :: "Note \<Rightarrow> bool" where
  "finiteTimes n = (isFinite (updatedAt n) \<and> isFinite (createdAt n))"

section \<open>Sample inputs\<close>

text \<open>
  Four hosts: with an API, without one, without one and with a storage that refuses
  every write, and without one outside a window. Their conversions to strings and
  numbers are never applied in what follows: every value converted there is a string
  or a number already. Their \<open>toLowerCase\<close> folds the letters \<open>A\<close> to \<open>Z\<close>, which is
  what the language does on the titles used here.
\<close>

definition lowerChar :: "char \<Rightarrow> char" where
  "lowerChar c =
     (if (65::nat) \<le> of_char c \<and> of_char c \<le> (90::nat) then char_of (of_char c + (32::nat))
      else c)"

definition apiHost :: host where
  "apiHost = \<lparr>USE_API = True, hasWindow = True, setItemOk = True,
              String_other = (\<lambda>v. []), Number_other = (\<lambda>v. NaN),
              toLowerCase = map lowerChar,
              nullPatternMessage = ''Cannot destructure property title of null''\<rparr>"

definition localHost :: host where
  "localHost = apiHost\<lparr>USE_API := False\<rparr>"

definition fullHost :: host where
  "fullHost = localHost\<lparr>setItemOk := False\<rparr>"

definition nodeHost :: host where
  "nodeHost = localHost\<lparr>hasWindow := False\<rparr>"

definition sampleIo :: "fetch_result \<Rightarrow> io" where
  "sampleIo r = \<lparr>fetched = r, uid = (\<lambda>i. ''K'' @ decimal i), now = (\<lambda>i. 1000)\<rparr>"

definition note1 :: Note where
  "note1 = \<lparr>note_id = ''1'', title = [], content = [], updatedAt = Num 100, createdAt = Num 100\<rparr>"

definition note2 :: Note where
  "note2 = \<lparr>note_id = ''2'', title = [], content = [], updatedAt = Num 200, createdAt = Num 200\<rparr>"

definition emptyStore :: store where
  "emptyStore = \<lparr>st = defaultState, ls = NoItem, emitted = []\<rparr>"

definition twoNotes :: store where
  "twoNotes = \<lparr>st = \<lparr>notes = [note1, note2], selectedNoteId = Some ''1'', loading = False,
                        error = None\<rparr>,
               ls = NoItem, emitted = []\<rparr>"

definition groceries :: jsval where
  "groceries = JObj [(''title'', JStr ''Groceries''), (''content'', JStr ''Milk, eggs'')]"

text \<open>
  Records for the sorted view: two that were updated at the same infinite time, two at
  the same finite time, and two whose titles differ in case.
\<close>

definition everB :: Note where
  "everB = \<lparr>note_id = ''1'', title = ''b'', content = [], updatedAt = PosInf, createdAt = Num 1\<rparr>"

definition everA :: Note where
  "everA = \<lparr>note_id = ''2'', title = ''a'', content = [], updatedAt = PosInf, createdAt = Num 1\<rparr>"

definition onceB :: Note where
  "onceB = \<lparr>note_id = ''1'', title = ''B'', content = [], updatedAt = Num 300, createdAt = Num 1\<rparr>"

definition onceA :: Note where
  "onceA = \<lparr>note_id = ''2'', title = ''a'', content = [], updatedAt = Num 300, createdAt = Num 1\<rparr>"

definition holding :: "Note list \<Rightarrow> state" where
  "holding ns = \<lparr>notes = ns, selectedNoteId = None, loading = False, error = None\<rparr>"

section \<open>The sorted view\<close>

lemma mset_insertBy: "mset (insertBy cmp x ys) = add_mset x (mset ys)"
  by (induction ys) auto

lemma mset_sortBy: "mset (sortBy cmp xs) = mset xs"
  by (induction xs) (auto simp: mset_insertBy)

lemma set_insertBy: "set (insertBy cmp x ys) = insert x (set ys)"
  by (induction ys) auto

lemma compareNotes_notPositive: "notPositive (compareNotes h a b) \<longleftrightarrow> inOrder h a b"
  by (cases "updatedAt a"; cases "updatedAt b")
     (auto simp: compareNotes_def inOrder_def later_def stamp_def Let_def)

lemma later_trans: "later a b \<Longrightarrow> later b c \<Longrightarrow> later a c"
  by (auto simp: later_def)

lemma later_total: "a \<noteq> NaN \<Longrightarrow> b \<noteq> NaN \<Longrightarrow> a \<noteq> b \<Longrightarrow> later a b \<or> later b a"
  by (cases a; cases b) (auto simp: later_def)

lemma stamp_not_NaN: "stamp n \<noteq> NaN"
  by (cases "updatedAt n") (simp_all add: stamp_def)

lemma inOrder_trans:
  assumes ab: "inOrder h a b" and bc: "inOrder h b c"
  shows "inOrder h a c"
proof (cases "later (stamp a) (stamp b) \<or> later (stamp b) (stamp c)")
  case True
  have "later (stamp a) (stamp c)"
  proof (cases "later (stamp a) (stamp b)")
    case l: True
    show ?thesis
    proof (cases "later (stamp b) (stamp c)")
      case True
      with l show ?thesis by (rule later_trans)
    next
      case False
      with bc have "stamp b = stamp c" unfolding inOrder_def by blast
      with l show ?thesis by simp
    qed
  next
    case False
    with ab have "stamp a = stamp b" unfolding inOrder_def by blast
    with True False show ?thesis by simp
  qed
  then show ?thesis unfolding inOrder_def by blast
next
  case False
  with ab bc have eq: "stamp a = stamp b" "stamp b = stamp c"
    and t: "\<not> isFinite (stamp a) \<or> toLowerCase h (title a) \<le> toLowerCase h (title b)"
      "\<not> isFinite (stamp b) \<or> toLowerCase h (title b) \<le> toLowerCase h (title c)"
    unfolding inOrder_def by blast+
  have "\<not> isFinite (stamp a) \<or> toLowerCase h (title a) \<le> toLowerCase h (title c)"
  proof (cases "isFinite (stamp a)")
    case True
    with t eq have "toLowerCase h (title a) \<le> toLowerCase h (title b)"
      "toLowerCase h (title b) \<le> toLowerCase h (title c)"
      by simp_all
    then show ?thesis by (blast intro: order_trans)
  next
    case False
    then show ?thesis by blast
  qed
  with eq show ?thesis unfolding inOrder_def by simp
qed

lemma inOrder_total: "inOrder h a b \<or> inOrder h b a"
proof (cases "stamp a = stamp b")
  case True
  have "toLowerCase h (title a) \<le> toLowerCase h (title b)
      \<or> toLowerCase h (title b) \<le> toLowerCase h (title a)"
    by (rule linear)
  with True show ?thesis unfolding inOrder_def by metis
next
  case False
  with later_total [OF stamp_not_NaN stamp_not_NaN, of a b]
  show ?thesis unfolding inOrder_def by blast
qed

lemma later_asym: "later a b \<Longrightarrow> \<not> later b a \<and> a \<noteq> b"
  by (auto simp: later_def)

lemma inOrder_tie: "inOrder h a b \<and> inOrder h b a \<longleftrightarrow> tieKey h a = tieKey h b"
proof
  assume both: "inOrder h a b \<and> inOrder h b a"
  have "\<not> later (stamp a) (stamp b)"
  proof
    assume l: "later (stamp a) (stamp b)"
    with both later_asym [OF l] show False by (auto simp: inOrder_def)
  qed
  moreover have "\<not> later (stamp b) (stamp a)"
  proof
    assume l: "later (stamp b) (stamp a)"
    with both later_asym [OF l] show False by (auto simp: inOrder_def)
  qed
  ultimately have eq: "stamp a = stamp b"
    using both unfolding inOrder_def by blast
  show "tieKey h a = tieKey h b"
  proof (cases "isFinite (stamp a)")
    case True
    with both eq have "toLowerCase h (title a) \<le> toLowerCase h (title b)"
      "toLowerCase h (title b) \<le> toLowerCase h (title a)"
      using later_asym unfolding inOrder_def by metis+
    then have "toLowerCase h (title a) = toLowerCase h (title b)"
      by (rule antisym)
    with eq show ?thesis by (simp add: tieKey_def)
  next
    case False
    with eq show ?thesis by (simp add: tieKey_def)
  qed
next
  assume "tieKey h a = tieKey h b"
  then have eq: "stamp a = stamp b"
    and t: "\<not> isFinite (stamp a) \<or> toLowerCase h (title a) = toLowerCase h (title b)"
    by (simp_all add: tieKey_def split: if_splits)
  from t have "\<not> isFinite (stamp a) \<or>
      (toLowerCase h (title a) \<le> toLowerCase h (title b) \<and>
       toLowerCase h (title b) \<le> toLowerCase h (title a))"
    by (rule disj_forward) simp_all
  with eq show "inOrder h a b \<and> inOrder h b a"
    unfolding inOrder_def by metis
qed

lemma sorted_insertBy:
  "sorted_wrt (inOrder h) ys \<Longrightarrow> sorted_wrt (inOrder h) (insertBy (compareNotes h) x ys)"
proof (induction ys)
  case Nil
  then show ?case by simp
next
  case (Cons y ys)
  show ?case
  proof (cases "notPositive (compareNotes h x y)")
    case True
    then have xy: "inOrder h x y" by (simp add: compareNotes_notPositive)
    with Cons.prems have "\<forall>z\<in>set ys. inOrder h x z"
      by (auto intro: inOrder_trans)
    with True xy Cons.prems show ?thesis by simp
  next
    case False
    then have "inOrder h y x"
      using inOrder_total [of h x y] by (simp add: compareNotes_notPositive)
    with False Cons show ?thesis by (auto simp: set_insertBy)
  qed
qed

lemma sorted_sortBy: "sorted_wrt (inOrder h) (sortBy (compareNotes h) xs)"
  by (induction xs) (auto intro: sorted_insertBy)

text \<open>Inserting \<open>x\<close> never moves it behind a record it is tied with.\<close>

lemma filter_insertBy:
  "(\<And>y. y \<in> set ys \<Longrightarrow> P x \<Longrightarrow> P y \<Longrightarrow> notPositive (cmp x y))
    \<Longrightarrow> filter P (insertBy cmp x ys) = filter P (x # ys)"
  by (induction ys) auto

lemma stable_sortBy:
  "filter (\<lambda>n. tieKey h n = k) (sortBy (compareNotes h) xs) = filter (\<lambda>n. tieKey h n = k) xs"
proof (induction xs)
  case Nil
  then show ?case by simp
next
  case (Cons x xs)
  have "filter (\<lambda>n. tieKey h n = k) (insertBy (compareNotes h) x (sortBy (compareNotes h) xs))
        = filter (\<lambda>n. tieKey h n = k) (x # sortBy (compareNotes h) xs)"
  proof (rule filter_insertBy)
    fix y assume "tieKey h x = k" "tieKey h y = k"
    then have "tieKey h x = tieKey h y" by simp
    then show "notPositive (compareNotes h x y)"
      using inOrder_tie [of h x y] by (simp add: compareNotes_notPositive)
  qed
  with Cons show ?case by simp
qed

text \<open>
  Two sequences in order that list the records of every key in the same order are
  the same sequence.
\<close>

lemma stable_sorted_unique:
  "sorted_wrt (inOrder h) xs \<Longrightarrow> sorted_wrt (inOrder h) ys
     \<Longrightarrow> (\<And>k. filter (\<lambda>n. tieKey h n = k) xs = filter (\<lambda>n. tieKey h n = k) ys)
     \<Longrightarrow> xs = ys"
proof (induction xs arbitrary: ys)
  case Nil
  show ?case
  proof (cases ys)
    case Nil
    then show ?thesis by simp
  next
    case (Cons y ys')
    with Nil.prems(3) [of "tieKey h y"] show ?thesis by simp
  qed
next
  case (Cons x xs)
  have "ys \<noteq> []"
    using Cons.prems(3) [of "tieKey h x"] by auto
  then obtain y ys' where ys: "ys = y # ys'" by (cases ys) auto
  have xy: "x = y"
  proof (cases "tieKey h x = tieKey h y")
    case True
    with Cons.prems(3) [of "tieKey h x"] ys show ?thesis by simp
  next
    case False
    have "x \<in> set (filter (\<lambda>n. tieKey h n = tieKey h x) ys)"
      using Cons.prems(3) [of "tieKey h x", symmetric] by simp
    with False ys have "x \<in> set ys'" by auto
    with Cons.prems(2) ys have yx: "inOrder h y x" by simp
    have "y \<in> set (filter (\<lambda>n. tieKey h n = tieKey h y) (x # xs))"
      using Cons.prems(3) [of "tieKey h y"] ys by simp
    with False have "y \<in> set xs" by auto
    with Cons.prems(1) have "inOrder h x y" by simp
    with yx False show ?thesis using inOrder_tie by blast
  qed
  have "xs = ys'"
  proof (rule Cons.IH)
    show "sorted_wrt (inOrder h) xs" using Cons.prems(1) by simp
    show "sorted_wrt (inOrder h) ys'" using Cons.prems(2) ys by simp
    show "filter (\<lambda>n. tieKey h n = k) xs = filter (\<lambda>n. tieKey h n = k) ys'" for k
      using Cons.prems(3) [of k] ys xy by (simp split: if_splits)
  qed
  with xy ys show ?case by simp
qed

text \<open>
  What holds of \<open>sortedNotes\<close> in every state: it returns a permutation of \<open>notes\<close> in
  the order the comparator decides, the records of one key in the order they have in
  \<open>notes\<close>, and it is the only sequence that does so. Where every time is finite (or
  unusable, counting as \<open>0\<close>) that order is the one the specification states.
\<close>

lemma sortedNotes_stable_sorted:
  "mset (sortedNotes h s) = mset (notes s)"
  "sorted_wrt (inOrder h) (sortedNotes h s)"
  "filter (\<lambda>n. tieKey h n = k) (sortedNotes h s) = filter (\<lambda>n. tieKey h n = k) (notes s)"
  by (simp_all add: sortedNotes_def mset_sortBy sorted_sortBy stable_sortBy)

lemma sortedNotes_unique:
  assumes "sorted_wrt (inOrder h) ys"
    and "\<And>k. filter (\<lambda>n. tieKey h n = k) ys = filter (\<lambda>n. tieKey h n = k) (notes s)"
  shows "ys = sortedNotes h s"
proof (rule stable_sorted_unique)
  show "sorted_wrt (inOrder h) ys" by (rule assms(1))
  show "sorted_wrt (inOrder h) (sortedNotes h s)" by (rule sortedNotes_stable_sorted(2))
  show "filter (\<lambda>n. tieKey h n = k) ys = filter (\<lambda>n. tieKey h n = k) (sortedNotes h s)" for k
    using assms(2) [of k] sortedNotes_stable_sorted(3) [of h k s] by (rule trans [OF _ sym])
qed

lemma sortedNotes_finite_times:
  assumes "\<forall>n \<in> set (notes s). updatedAt n \<noteq> PosInf \<and> updatedAt n \<noteq> NegInf"
  shows "sorted_wrt (specOrder h) (sortedNotes h s)"
proof -
  have fin: "isFinite (stamp n)" if "n \<in> set (sortedNotes h s)" for n
  proof -
    from that have "n \<in> set (notes s)"
      using sortedNotes_stable_sorted(1) [of h s] by (metis mset_eq_setD)
    with assms show ?thesis
      by (cases "updatedAt n") (auto simp: stamp_def)
  qed
  have "sorted_wrt (inOrder h) (sortedNotes h s)"
    by (rule sortedNotes_stable_sorted(2))
  then show ?thesis
  proof (rule sorted_wrt_mono_rel [rotated])
    fix a b assume "a \<in> set (sortedNotes h s)" "b \<in> set (sortedNotes h s)" "inOrder h a b"
    with fin [of a] show "specOrder h a b"
      by (auto simp: inOrder_def specOrder_def)
  qed
qed

section \<open>The store's steps\<close>

lemma st_emit: "st (emit h w) = st w"
  by (simp add: emit_def writeToLocalStorage_def Let_def)

lemma st_setState: "st (setState h p w) = p (st w)"
  by (simp add: setState_def st_emit)

lemma fst_runAsync:
  "fst (runAsync h fn w) = fst (fn (setState h (\<lambda>s. s\<lparr>loading := True, error := None\<rparr>) w))"
  by (simp add: runAsync_def Let_def split: prod.splits)

lemma st_runAsync:
  "st (snd (runAsync h fn w)) =
     (let (r, w2) = fn (setState h (\<lambda>s. s\<lparr>loading := True, error := None\<rparr>) w) in
      case r of
        Inl e \<Rightarrow> (st w2)\<lparr>error := Some (failureMessage e), loading := False\<rparr>
      | Inr v \<Rightarrow> (st w2)\<lparr>loading := False\<rparr>)"
  by (simp add: runAsync_def Let_def st_setState split: prod.splits sum.splits)

text \<open>What each function passed to \<open>_runAsync\<close> returns, and the state it leaves.\<close>

lemma fst_loadNotes_fn:
  "fst (loadNotes_fn h x w) =
     (if \<not> USE_API h then Inr ()
      else (case apiFetch (fetched x) of
              Inl e \<Rightarrow> Inl e
            | Inr (JArr xs) \<Rightarrow> Inr ()
            | Inr _ \<Rightarrow> Inl (JsError ''Invalid response from server.'')))"
  by (simp add: loadNotes_fn_def split: sum.splits jsval.splits)

lemma st_loadNotes_fn:
  "st (snd (loadNotes_fn h x w)) =
     (if \<not> USE_API h then st w
      else (case apiFetch (fetched x) of
              Inr (JArr xs) \<Rightarrow>
                (st w)\<lparr>notes := map (\<lambda>(i, n). normalizeNote h x i n)
                                   (enumerate 0 (filter isObject xs))\<rparr>
            | _ \<Rightarrow> st w))"
  by (simp add: loadNotes_fn_def st_emit st_setState split: sum.splits jsval.splits)

lemma addNote_fn_cases:
  "(\<exists>e. addNote_fn h x t c w = (Inl e, w) \<and> USE_API h \<and> apiFetch (fetched x) = Inl e) \<or>
   (\<exists>n. fst (addNote_fn h x t c w) = Inr n \<and>
        st (snd (addNote_fn h x t c w))
          = (st w)\<lparr>notes := notes (st w) @ [n], selectedNoteId := Some (note_id n)\<rparr>)"
  by (auto simp: addNote_fn_def Let_def st_setState split: sum.splits)

lemma updateNote_fn_cases:
  "(\<exists>e. updateNote_fn h x i t c w = (Inl e, w)) \<or>
   (\<exists>n. fst (updateNote_fn h x i t c w) = Inr n \<and>
        list_ex (\<lambda>n. JStr (note_id n) = i) (notes (st w)) \<and>
        st (snd (updateNote_fn h x i t c w))
          = (st w)\<lparr>notes := map (\<lambda>m. if JStr (note_id m) = i then n else m) (notes (st w))\<rparr>)"
proof (cases "find (\<lambda>n. JStr (note_id n) = i) (notes (st w))")
  case None
  then show ?thesis by (simp add: updateNote_fn_def)
next
  case (Some existing)
  then have ex: "list_ex (\<lambda>n. JStr (note_id n) = i) (notes (st w))"
    by (auto simp: list_ex_iff find_Some_iff)
  show ?thesis
  proof (cases "USE_API h")
    case True
    show ?thesis
    proof (cases "apiFetch (fetched x)")
      case (Inl e)
      with True Some show ?thesis by (simp add: updateNote_fn_def Let_def)
    next
      case (Inr data)
      with True Some ex show ?thesis by (simp add: updateNote_fn_def Let_def st_setState)
    qed
  next
    case False
    with Some ex show ?thesis by (simp add: updateNote_fn_def Let_def st_setState)
  qed
qed


lemma deleteNote_fn_cases:
  "(\<exists>e. deleteNote_fn h x i w = (Inl e, w)) \<or>
   (fst (deleteNote_fn h x i w) = Inr True \<and>
    list_ex (\<lambda>n. JStr (note_id n) = i) (notes (st w)) \<and>
    st (snd (deleteNote_fn h x i w))
      = (st w)\<lparr>notes := filter (\<lambda>n. JStr (note_id n) \<noteq> i) (notes (st w)),
               selectedNoteId :=
                 (if idVal (selectedNoteId (st w)) = i
                  then (case filter (\<lambda>n. JStr (note_id n) \<noteq> i) (notes (st w)) of
                          [] \<Rightarrow> None | n # ns \<Rightarrow> Some (note_id n))
                  else selectedNoteId (st w))\<rparr>)"
  by (auto simp: deleteNote_fn_def Let_def st_setState split: sum.splits)






lemma snd_loadNotes: "snd (loadNotes h x w) = snd (runAsync h (loadNotes_fn h x) w)"
  by (simp add: loadNotes_def split: prod.splits)

lemma snd_addNote:
  "arg \<noteq> JNull \<Longrightarrow> snd (addNote h x arg w)
     = snd (runAsync h (addNote_fn h x (paramOr arg ''title'') (paramOr arg ''content'')) w)"
  by (simp add: addNote_def split: prod.splits)

lemma snd_updateNote:
  "truthy i \<Longrightarrow> snd (updateNote h x i t c w) = snd (runAsync h (updateNote_fn h x i t c) w)"
  by (simp add: updateNote_def split: prod.splits)

lemma snd_deleteNote:
  "truthy i \<Longrightarrow> snd (deleteNote h x i w) = snd (runAsync h (deleteNote_fn h x i) w)"
  by (simp add: deleteNote_def split: prod.splits)

lemma fst_addNote:
  "arg \<noteq> JNull \<Longrightarrow> fst (addNote h x arg w)
     = Inr (case fst (runAsync h
                        (addNote_fn h x (paramOr arg ''title'') (paramOr arg ''content'')) w) of
              Inl e \<Rightarrow> None | Inr n \<Rightarrow> Some n)"
  by (simp add: addNote_def split: prod.splits)

lemma fst_updateNote:
  "truthy i \<Longrightarrow> fst (updateNote h x i t c w)
     = Inr (case fst (runAsync h (updateNote_fn h x i t c) w) of
              Inl e \<Rightarrow> None | Inr n \<Rightarrow> Some n)"
  by (simp add: updateNote_def split: prod.splits)

lemma fst_deleteNote:
  "truthy i \<Longrightarrow> fst (deleteNote h x i w)
     = Inr (case fst (runAsync h (deleteNote_fn h x i) w) of Inl e \<Rightarrow> False | Inr ok \<Rightarrow> ok)"
  by (simp add: deleteNote_def split: prod.splits)

text \<open>
  Neither the item in storage nor the fate of a write reaches a result or a state:
  they depend on the state the action starts from.
\<close>

lemma runAsync_cong:
  assumes fn: "\<And>a b. st a = st b \<Longrightarrow>
      fst (fn' a) = fst (fn b) \<and> st (snd (fn' a)) = st (snd (fn b))"
    and w: "st w' = st w"
  shows "fst (runAsync h' fn' w') = fst (runAsync h fn w) \<and>
         st (snd (runAsync h' fn' w')) = st (snd (runAsync h fn w))"
proof -
  let ?a = "setState h' (\<lambda>s. s\<lparr>loading := True, error := None\<rparr>) w'"
  let ?b = "setState h (\<lambda>s. s\<lparr>loading := True, error := None\<rparr>) w"
  have "st ?a = st ?b" using w by (simp add: st_setState)
  from fn [OF this] have r: "fst (fn' ?a) = fst (fn ?b)" "st (snd (fn' ?a)) = st (snd (fn ?b))"
    by simp_all
  obtain ra wa where a: "fn' ?a = (ra, wa)" by (cases "fn' ?a")
  obtain rb wb where b: "fn ?b = (rb, wb)" by (cases "fn ?b")
  from r a b have "ra = rb" "st wa = st wb" by simp_all
  with a b show ?thesis
    by (simp add: runAsync_def Let_def st_setState split: sum.splits)
qed

lemma js_String_setItemOk: "js_String (h\<lparr>setItemOk := q\<rparr>) v = js_String h v"
  by (cases v) (simp_all add: js_String_def)

lemma js_Number_setItemOk: "js_Number (h\<lparr>setItemOk := q\<rparr>) v = js_Number h v"
  by (cases v) (simp_all add: js_Number_def)

lemma normalizeNote_setItemOk: "normalizeNote (h\<lparr>setItemOk := q\<rparr>) = normalizeNote h"
  by (intro ext) (simp add: normalizeNote_def js_String_setItemOk js_Number_setItemOk)

lemma loadNotes_fn_cong:
  "st a = st b \<Longrightarrow>
     fst (loadNotes_fn (h\<lparr>setItemOk := q\<rparr>) x a) = fst (loadNotes_fn h x b) \<and>
     st (snd (loadNotes_fn (h\<lparr>setItemOk := q\<rparr>) x a)) = st (snd (loadNotes_fn h x b))"
  by (simp add: fst_loadNotes_fn st_loadNotes_fn normalizeNote_setItemOk
        split: sum.splits jsval.splits)

lemma addNote_fn_cong:
  "st a = st b \<Longrightarrow>
     fst (addNote_fn (h\<lparr>setItemOk := q\<rparr>) x t c a) = fst (addNote_fn h x t c b) \<and>
     st (snd (addNote_fn (h\<lparr>setItemOk := q\<rparr>) x t c a)) = st (snd (addNote_fn h x t c b))"
  by (simp add: addNote_fn_def Let_def st_setState js_String_setItemOk js_Number_setItemOk
        split: sum.splits)

lemma updateNote_fn_cong:
  "st a = st b \<Longrightarrow>
     fst (updateNote_fn (h\<lparr>setItemOk := q\<rparr>) x i t c a) = fst (updateNote_fn h x i t c b) \<and>
     st (snd (updateNote_fn (h\<lparr>setItemOk := q\<rparr>) x i t c a))
       = st (snd (updateNote_fn h x i t c b))"
  by (simp add: updateNote_fn_def Let_def st_setState js_String_setItemOk js_Number_setItemOk
        split: sum.splits option.splits)

lemma deleteNote_fn_cong:
  "st a = st b \<Longrightarrow>
     fst (deleteNote_fn (h\<lparr>setItemOk := q\<rparr>) x i a) = fst (deleteNote_fn h x i b) \<and>
     st (snd (deleteNote_fn (h\<lparr>setItemOk := q\<rparr>) x i a)) = st (snd (deleteNote_fn h x i b))"
  by (simp add: deleteNote_fn_def Let_def st_setState split: sum.splits)

lemma loadNotes_cong:
  assumes "st w' = st w"
  shows "fst (loadNotes (h\<lparr>setItemOk := q\<rparr>) x w') = fst (loadNotes h x w) \<and>
     st (snd (loadNotes (h\<lparr>setItemOk := q\<rparr>) x w')) = st (snd (loadNotes h x w))"
proof -
  have "fst (runAsync (h\<lparr>setItemOk := q\<rparr>) (loadNotes_fn (h\<lparr>setItemOk := q\<rparr>) x) w')
          = fst (runAsync h (loadNotes_fn h x) w) \<and>
        st (snd (runAsync (h\<lparr>setItemOk := q\<rparr>) (loadNotes_fn (h\<lparr>setItemOk := q\<rparr>) x) w'))
          = st (snd (runAsync h (loadNotes_fn h x) w))"
    by (rule runAsync_cong [OF loadNotes_fn_cong assms])
  moreover have "fst (loadNotes h' x w'') = Inr ()" for h' w''
    by (simp add: loadNotes_def split: prod.splits)
  ultimately show ?thesis
    by (simp add: snd_loadNotes)
qed

lemma addNote_cong:
  assumes "st w' = st w"
  shows "fst (addNote (h\<lparr>setItemOk := q\<rparr>) x arg w') = fst (addNote h x arg w) \<and>
     st (snd (addNote (h\<lparr>setItemOk := q\<rparr>) x arg w')) = st (snd (addNote h x arg w))"
proof -
  let ?t = "paramOr arg ''title''" and ?c = "paramOr arg ''content''"
  have "fst (runAsync (h\<lparr>setItemOk := q\<rparr>) (addNote_fn (h\<lparr>setItemOk := q\<rparr>) x ?t ?c) w')
          = fst (runAsync h (addNote_fn h x ?t ?c) w) \<and>
        st (snd (runAsync (h\<lparr>setItemOk := q\<rparr>) (addNote_fn (h\<lparr>setItemOk := q\<rparr>) x ?t ?c) w'))
          = st (snd (runAsync h (addNote_fn h x ?t ?c) w))"
    by (rule runAsync_cong [OF addNote_fn_cong assms])
  with assms show ?thesis
    by (cases "arg = JNull") (simp_all add: fst_addNote snd_addNote, simp add: addNote_def)
qed

lemma updateNote_cong:
  assumes "st w' = st w"
  shows "fst (updateNote (h\<lparr>setItemOk := q\<rparr>) x i t c w') = fst (updateNote h x i t c w) \<and>
     st (snd (updateNote (h\<lparr>setItemOk := q\<rparr>) x i t c w')) = st (snd (updateNote h x i t c w))"
proof -
  have "fst (runAsync (h\<lparr>setItemOk := q\<rparr>) (updateNote_fn (h\<lparr>setItemOk := q\<rparr>) x i t c) w')
          = fst (runAsync h (updateNote_fn h x i t c) w) \<and>
        st (snd (runAsync (h\<lparr>setItemOk := q\<rparr>) (updateNote_fn (h\<lparr>setItemOk := q\<rparr>) x i t c) w'))
          = st (snd (runAsync h (updateNote_fn h x i t c) w))"
    by (rule runAsync_cong [OF updateNote_fn_cong assms])
  with assms show ?thesis
    by (cases "truthy i") (simp_all add: fst_updateNote snd_updateNote, simp add: updateNote_def)
qed

lemma deleteNote_cong:
  assumes "st w' = st w"
  shows "fst (deleteNote (h\<lparr>setItemOk := q\<rparr>) x i w') = fst (deleteNote h x i w) \<and>
     st (snd (deleteNote (h\<lparr>setItemOk := q\<rparr>) x i w')) = st (snd (deleteNote h x i w))"
proof -
  have "fst (runAsync (h\<lparr>setItemOk := q\<rparr>) (deleteNote_fn (h\<lparr>setItemOk := q\<rparr>) x i) w')
          = fst (runAsync h (deleteNote_fn h x i) w) \<and>
        st (snd (runAsync (h\<lparr>setItemOk := q\<rparr>) (deleteNote_fn (h\<lparr>setItemOk := q\<rparr>) x i) w'))
          = st (snd (runAsync h (deleteNote_fn h x i) w))"
    by (rule runAsync_cong [OF deleteNote_fn_cong assms])
  with assms show ?thesis
    by (cases "truthy i") (simp_all add: fst_deleteNote snd_deleteNote, simp add: deleteNote_def)
qed

text \<open>What the steps leave in storage.\<close>

lemma ls_emit: "ls (emit h w) = (if persisting h then Json (stateJson (st w)) else ls w)"
  by (simp add: emit_def writeToLocalStorage_def persisting_def Let_def)

lemma ls_setState:
  "ls (setState h p w) = (if persisting h then Json (stateJson (p (st w))) else ls w)"
  by (simp add: setState_def ls_emit)

lemma ls_runAsync:
  "persisting h \<Longrightarrow> ls (snd (runAsync h fn w)) = Json (stateJson (st (snd (runAsync h fn w))))"
  by (simp add: runAsync_def Let_def ls_setState st_setState split: prod.splits)

lemma ls_runAsync_off:
  assumes "\<not> persisting h" and "\<And>w1. ls (snd (fn w1)) = ls w1"
  shows "ls (snd (runAsync h fn w)) = ls w"
proof -
  let ?w1 = "setState h (\<lambda>s. s\<lparr>loading := True, error := None\<rparr>) w"
  obtain r w2 where fn: "fn ?w1 = (r, w2)" by (cases "fn ?w1")
  with assms(2) [of ?w1] have "ls w2 = ls ?w1" by simp
  with assms(1) fn show ?thesis
    by (simp add: runAsync_def Let_def ls_setState split: sum.splits)
qed

lemma ls_loadNotes_fn_off: "\<not> persisting h \<Longrightarrow> ls (snd (loadNotes_fn h x w)) = ls w"
  by (simp add: loadNotes_fn_def ls_emit ls_setState split: sum.splits jsval.splits)

lemma ls_addNote_fn_off: "\<not> persisting h \<Longrightarrow> ls (snd (addNote_fn h x t c w)) = ls w"
  by (simp add: addNote_fn_def Let_def ls_setState split: sum.splits)

lemma ls_updateNote_fn_off: "\<not> persisting h \<Longrightarrow> ls (snd (updateNote_fn h x i t c w)) = ls w"
  by (simp add: updateNote_fn_def Let_def ls_setState split: sum.splits option.splits)

lemma ls_deleteNote_fn_off: "\<not> persisting h \<Longrightarrow> ls (snd (deleteNote_fn h x i w)) = ls w"
  by (simp add: deleteNote_fn_def Let_def ls_setState split: sum.splits)

lemma ls_actions_off:
  assumes "\<not> persisting h"
  shows "ls (snd (loadNotes h x w)) = ls w"
    and "ls (snd (addNote h x arg w)) = ls w"
    and "ls (snd (updateNote h x i t c w)) = ls w"
    and "ls (snd (deleteNote h x i w)) = ls w"
proof -
  show "ls (snd (loadNotes h x w)) = ls w"
    unfolding snd_loadNotes using assms by (rule ls_runAsync_off) (rule ls_loadNotes_fn_off, rule assms)
  show "ls (snd (addNote h x arg w)) = ls w"
  proof (cases "arg = JNull")
    case True
    then show ?thesis by (simp add: addNote_def)
  next
    case False
    show ?thesis
      unfolding snd_addNote [OF False] using assms
      by (rule ls_runAsync_off) (rule ls_addNote_fn_off, rule assms)
  qed
  show "ls (snd (updateNote h x i t c w)) = ls w"
  proof (cases "truthy i")
    case True
    show ?thesis
      unfolding snd_updateNote [OF True] using assms
      by (rule ls_runAsync_off) (rule ls_updateNote_fn_off, rule assms)
  next
    case False
    then show ?thesis by (simp add: updateNote_def)
  qed
  show "ls (snd (deleteNote h x i w)) = ls w"
  proof (cases "truthy i")
    case True
    show ?thesis
      unfolding snd_deleteNote [OF True] using assms
      by (rule ls_runAsync_off) (rule ls_deleteNote_fn_off, rule assms)
  next
    case False
    then show ?thesis by (simp add: deleteNote_def)
  qed
qed

text \<open>What \<open>addNote\<close> creates.\<close>

lemma addNote_fn_local:
  "\<not> USE_API h \<Longrightarrow>
     fst (addNote_fn h x t c w)
       = Inr \<lparr>note_id = uid x 0, title = js_String h t, content = js_String h c,
              updatedAt = Num (now x 0), createdAt = Num (now x 0)\<rparr>"
  by (simp add: addNote_fn_def Let_def)

lemma addNote_fn_api:
  "USE_API h \<Longrightarrow>
     fst (addNote_fn h x t c w)
       = (case apiFetch (fetched x) of
            Inl e \<Rightarrow> Inl e
          | Inr data \<Rightarrow>
              Inr \<lparr>note_id = (if nullish (getProp data ''id'') then uid x 0
                              else js_String h (getProp data ''id'')),
                   title = (if nullish (getProp data ''title'') then js_String h t
                            else js_String h (getProp data ''title'')),
                   content = (if nullish (getProp data ''content'') then js_String h c
                              else js_String h (getProp data ''content'')),
                   updatedAt = (if nullish (getProp data ''updatedAt'') then Num (now x 0)
                                else js_Number h (getProp data ''updatedAt'')),
                   createdAt = (if nullish (getProp data ''createdAt'') then Num (now x 1)
                                else js_Number h (getProp data ''createdAt''))\<rparr>)"
  by (simp add: addNote_fn_def Let_def split: sum.splits)





lemma js_String_JStr: "js_String h (JStr s) = s"
  by (simp add: js_String_def)

lemma paramOr_groceries:
  "paramOr groceries ''title'' = JStr ''Groceries''"
  "paramOr groceries ''content'' = JStr ''Milk, eggs''"
  by (simp_all add: paramOr_def groceries_def)

section \<open>Failures\<close>

lemma error_runAsync:
  "(\<And>w1. st (snd (fn w1)) = st w1 \<or> error (st (snd (fn w1))) = error (st w1))
     \<Longrightarrow> error (st (snd (runAsync h fn w)))
         = (case fst (runAsync h fn w) of Inl e \<Rightarrow> Some (failureMessage e) | Inr v \<Rightarrow> None)"
proof -
  assume keep: "\<And>w1. st (snd (fn w1)) = st w1 \<or> error (st (snd (fn w1))) = error (st w1)"
  let ?w1 = "setState h (\<lambda>s. s\<lparr>loading := True, error := None\<rparr>) w"
  obtain r w2 where fn: "fn ?w1 = (r, w2)" by (cases "fn ?w1")
  from keep [of ?w1] fn have "error (st w2) = None"
    by (auto simp: st_setState)
  with fn show ?thesis
    by (simp add: st_runAsync fst_runAsync split: sum.splits)
qed

lemma error_loadNotes_fn:
  "st (snd (loadNotes_fn h x w)) = st w \<or> error (st (snd (loadNotes_fn h x w))) = error (st w)"
  by (simp add: st_loadNotes_fn split: sum.splits jsval.splits)

lemma error_addNote_fn:
  "st (snd (addNote_fn h x t c w)) = st w
     \<or> error (st (snd (addNote_fn h x t c w))) = error (st w)"
  using addNote_fn_cases [of h x t c w] by auto

lemma error_updateNote_fn:
  "st (snd (updateNote_fn h x i t c w)) = st w
     \<or> error (st (snd (updateNote_fn h x i t c w))) = error (st w)"
  using updateNote_fn_cases [of h x i t c w] by auto

lemma error_deleteNote_fn:
  "st (snd (deleteNote_fn h x i w)) = st w
     \<or> error (st (snd (deleteNote_fn h x i w))) = error (st w)"
  using deleteNote_fn_cases [of h x i w] by auto



text \<open>
  Claim C3. With a falsy \<open>id\<close>, \<open>deleteNote\<close> and \<open>updateNote\<close> fail with their
  validation error before anything else happens: the store comes back as it was, so
  no state was set (\<open>loading\<close> never became true), nothing was emitted, nothing was
  written, and no request was made (the outcome does not depend on the \<open>io\<close>).
\<close>

theorem falsy_id_fails_first:
  "\<not> truthy i \<Longrightarrow>
     deleteNote h x i w = (Inl (JsError ''deleteNote requires an id''), w) \<and>
     updateNote h x i t c w = (Inl (JsError ''updateNote requires an id''), w)"
  by (simp add: deleteNote_def updateNote_def)

theorem falsy_id_fails_first_witness:
  "\<not> truthy JNull \<and>
   deleteNote apiHost (sampleIo (Rejected NonError)) JNull twoNotes
     = (Inl (JsError ''deleteNote requires an id''), twoNotes) \<and>
   updateNote apiHost (sampleIo (Rejected NonError)) JNull (Some ''x'') None twoNotes
     = (Inl (JsError ''updateNote requires an id''), twoNotes)"
  using falsy_id_fails_first [of JNull apiHost "sampleIo (Rejected NonError)" twoNotes
      "Some ''x''" None]
  by simp




section \<open>How the promises settle\<close>

text \<open>
  Claim C2, as the code has it. \<open>loadNotes\<close> always returns a fulfilled promise, and so
  do \<open>addNote\<close> when its argument is not \<open>null\<close> and \<open>updateNote\<close> and \<open>deleteNote\<close> when
  their \<open>id\<close> is truthy: the function handed to \<open>_runAsync\<close> threw exactly when \<open>error\<close>
  is non-null once the promise has settled, and \<open>error\<close> is then the message of what was
  thrown. With a falsy \<open>id\<close>, \<open>updateNote\<close> and \<open>deleteNote\<close> return a promise rejected
  with their validation error and leave the store, its \<open>error\<close> included, as it was.
\<close>

theorem actions_settle:
  "fst (loadNotes h x w) = Inr () \<and>
   error (st (snd (loadNotes h x w)))
     = (case fst (runAsync h (loadNotes_fn h x) w) of
          Inl e \<Rightarrow> Some (failureMessage e) | Inr v \<Rightarrow> None) \<and>
   (arg \<noteq> JNull \<longrightarrow>
      (\<exists>r. fst (addNote h x arg w) = Inr r) \<and>
      error (st (snd (addNote h x arg w)))
        = (case fst (runAsync h
                       (addNote_fn h x (paramOr arg ''title'') (paramOr arg ''content'')) w) of
             Inl e \<Rightarrow> Some (failureMessage e) | Inr v \<Rightarrow> None)) \<and>
   (truthy i \<longrightarrow>
      (\<exists>r. fst (updateNote h x i t c w) = Inr r) \<and>
      error (st (snd (updateNote h x i t c w)))
        = (case fst (runAsync h (updateNote_fn h x i t c) w) of
             Inl e \<Rightarrow> Some (failureMessage e) | Inr v \<Rightarrow> None) \<and>
      (\<exists>r. fst (deleteNote h x i w) = Inr r) \<and>
      error (st (snd (deleteNote h x i w)))
        = (case fst (runAsync h (deleteNote_fn h x i) w) of
             Inl e \<Rightarrow> Some (failureMessage e) | Inr v \<Rightarrow> None)) \<and>
   (\<not> truthy i \<longrightarrow>
      updateNote h x i t c w = (Inl (JsError ''updateNote requires an id''), w) \<and>
      deleteNote h x i w = (Inl (JsError ''deleteNote requires an id''), w))"
proof (intro conjI impI)
  show "fst (loadNotes h x w) = Inr ()"
    by (simp add: loadNotes_def split: prod.splits)
  show "error (st (snd (loadNotes h x w)))
     = (case fst (runAsync h (loadNotes_fn h x) w) of
          Inl e \<Rightarrow> Some (failureMessage e) | Inr v \<Rightarrow> None)"
    unfolding snd_loadNotes by (rule error_runAsync) (rule error_loadNotes_fn)
next
  assume a: "arg \<noteq> JNull"
  then show "\<exists>r. fst (addNote h x arg w) = Inr r"
    by (simp add: fst_addNote)
  show "error (st (snd (addNote h x arg w)))
     = (case fst (runAsync h
                    (addNote_fn h x (paramOr arg ''title'') (paramOr arg ''content'')) w) of
          Inl e \<Rightarrow> Some (failureMessage e) | Inr v \<Rightarrow> None)"
    unfolding snd_addNote [OF a] by (rule error_runAsync) (rule error_addNote_fn)
next
  assume i: "truthy i"
  then show "\<exists>r. fst (updateNote h x i t c w) = Inr r"
    by (simp add: fst_updateNote)
  from i show "\<exists>r. fst (deleteNote h x i w) = Inr r"
    by (simp add: fst_deleteNote)
  show "error (st (snd (updateNote h x i t c w)))
        = (case fst (runAsync h (updateNote_fn h x i t c) w) of
             Inl e \<Rightarrow> Some (failureMessage e) | Inr v \<Rightarrow> None)"
    unfolding snd_updateNote [OF i] by (rule error_runAsync) (rule error_updateNote_fn)
  show "error (st (snd (deleteNote h x i w)))
        = (case fst (runAsync h (deleteNote_fn h x i) w) of
             Inl e \<Rightarrow> Some (failureMessage e) | Inr v \<Rightarrow> None)"
    unfolding snd_deleteNote [OF i] by (rule error_runAsync) (rule error_deleteNote_fn)
next
  assume "\<not> truthy i"
  then show "updateNote h x i t c w = (Inl (JsError ''updateNote requires an id''), w)"
    by (simp add: updateNote_def)
next
  assume "\<not> truthy i"
  then show "deleteNote h x i w = (Inl (JsError ''deleteNote requires an id''), w)"
    by (simp add: deleteNote_def)
qed

theorem actions_settle_witness:
  "truthy (JStr ''1'') \<and>
   fst (deleteNote localHost (sampleIo (Rejected NonError)) (JStr ''1'') twoNotes) = Inr True \<and>
   error (st (snd (deleteNote localHost (sampleIo (Rejected NonError)) (JStr ''1'') twoNotes)))
     = None \<and>
   groceries \<noteq> JNull \<and>
   fst (addNote apiHost (sampleIo (Response False 500 (Some ''boom'') None)) groceries twoNotes)
     = Inr None \<and>
   error (st (snd (addNote apiHost (sampleIo (Response False 500 (Some ''boom'') None)) groceries
                     twoNotes))) = Some ''boom'' \<and>
   \<not> truthy (JStr []) \<and>
   updateNote localHost (sampleIo (Rejected NonError)) (JStr []) None None twoNotes
     = (Inl (JsError ''updateNote requires an id''), twoNotes)"
proof -
  let ?x = "sampleIo (Rejected NonError)"
  let ?y = "sampleIo (Response False 500 (Some ''boom'') None)"
  have d: "fst (runAsync localHost (deleteNote_fn localHost ?x (JStr ''1'')) twoNotes) = Inr True"
    by (simp add: fst_runAsync deleteNote_fn_def localHost_def apiHost_def st_setState
          twoNotes_def note1_def note2_def Let_def)
  have a: "fst (runAsync apiHost
                  (addNote_fn apiHost ?y (paramOr groceries ''title'')
                     (paramOr groceries ''content'')) twoNotes) = Inl (JsError ''boom'')"
    by (simp add: fst_runAsync addNote_fn_api apiHost_def sampleIo_def)
  have t: "truthy (JStr ''1'')" "\<not> truthy (JStr [])" "groceries \<noteq> JNull"
    by (simp_all add: groceries_def)
  show ?thesis
    using d a t
      actions_settle [where h = localHost and x = ?x and w = twoNotes and i = "JStr ''1''"
        and arg = groceries]
      actions_settle [where h = apiHost and x = ?y and w = twoNotes and i = "JStr ''1''"
        and arg = groceries]
      actions_settle [where h = localHost and x = ?x and w = twoNotes and i = "JStr []"
        and t = None and c = None and arg = groceries]
    by (simp add: fst_deleteNote fst_addNote)
qed

text \<open>
  The claim as the specification words it fails at \<open>deleteNote(null)\<close>: the promise is
  rejected, and \<open>error\<close> stays null.
\<close>

theorem deleteNote_null_rejects:
  "fst (deleteNote localHost (sampleIo (Rejected NonError)) JNull twoNotes)
     = Inl (JsError ''deleteNote requires an id'') \<and>
   error (st (snd (deleteNote localHost (sampleIo (Rejected NonError)) JNull twoNotes))) = None"
  by (simp add: deleteNote_def twoNotes_def)

section \<open>Deleting\<close>

lemma st_runAsync_deleteNote:
  assumes "fst (runAsync h (deleteNote_fn h x i) w) = Inr ok"
  shows "st (snd (runAsync h (deleteNote_fn h x i) w))
     = (st w)\<lparr>notes := filter (\<lambda>n. JStr (note_id n) \<noteq> i) (notes (st w)),
              selectedNoteId :=
                (if idVal (selectedNoteId (st w)) = i
                 then (case filter (\<lambda>n. JStr (note_id n) \<noteq> i) (notes (st w)) of
                         [] \<Rightarrow> None | n # ns \<Rightarrow> Some (note_id n))
                 else selectedNoteId (st w)),
              loading := False, error := None\<rparr>"
proof -
  let ?w1 = "setState h (\<lambda>s. s\<lparr>loading := True, error := None\<rparr>) w"
  obtain r w2 where fn: "deleteNote_fn h x i ?w1 = (r, w2)"
    by (cases "deleteNote_fn h x i ?w1")
  with assms have r: "r = Inr ok" by (simp add: fst_runAsync)
  with fn deleteNote_fn_cases [of h x i ?w1] show ?thesis
    by (auto simp: st_runAsync st_setState)
qed







section \<open>Adding\<close>




section \<open>Selecting\<close>

text \<open>
  Claim C6, as the code has it. \<open>selectNote\<close> with \<open>null\<close> or \<open>undefined\<close> clears the
  selection and changes nothing else of the state, so it sets no error. With any other
  \<open>id\<close> that no record has, it sets \<open>error\<close> to \<open>Note not found\<close> and changes nothing
  else, so the selection stays. With the id of a record it selects that id and changes
  nothing else. It never changes \<open>notes\<close> or \<open>loading\<close> and takes nothing from the
  network, the clock or the id generator; with an API it writes nothing to storage
  either.
\<close>

theorem selectNote_effect:
  "(nullish i \<longrightarrow> st (selectNote h i w) = (st w)\<lparr>selectedNoteId := None\<rparr>) \<and>
   (\<not> nullish i \<and> \<not> list_ex (\<lambda>n. JStr (note_id n) = i) (notes (st w)) \<longrightarrow>
      st (selectNote h i w) = (st w)\<lparr>error := Some ''Note not found''\<rparr>) \<and>
   (list_ex (\<lambda>n. note_id n = s) (notes (st w)) \<longrightarrow>
      st (selectNote h (JStr s) w) = (st w)\<lparr>selectedNoteId := Some s\<rparr>) \<and>
   notes (st (selectNote h i w)) = notes (st w) \<and>
   loading (st (selectNote h i w)) = loading (st w) \<and>
   (USE_API h \<longrightarrow> ls (selectNote h i w) = ls w)"
  by (simp add: selectNote_def st_setState ls_setState persisting_def)

theorem selectNote_effect_witness:
  "nullish JNull \<and>
   st (selectNote localHost JNull twoNotes) = (st twoNotes)\<lparr>selectedNoteId := None\<rparr> \<and>
   error (st (selectNote localHost JNull twoNotes)) = None \<and>
   \<not> nullish (JStr ''7'') \<and>
   \<not> list_ex (\<lambda>n. JStr (note_id n) = JStr ''7'') (notes (st twoNotes)) \<and>
   selectedNoteId (st (selectNote apiHost (JStr ''7'') twoNotes)) = Some ''1'' \<and>
   error (st (selectNote apiHost (JStr ''7'') twoNotes)) = Some ''Note not found'' \<and>
   USE_API apiHost \<and>
   ls (selectNote apiHost (JStr ''7'') twoNotes) = ls twoNotes \<and>
   list_ex (\<lambda>n. note_id n = ''2'') (notes (st twoNotes)) \<and>
   selectedNoteId (st (selectNote localHost (JStr ''2'') twoNotes)) = Some ''2''"
proof -
  have a: "nullish JNull" "\<not> nullish (JStr ''7'')"
    "\<not> list_ex (\<lambda>n. JStr (note_id n) = JStr ''7'') (notes (st twoNotes))"
    "list_ex (\<lambda>n. note_id n = ''2'') (notes (st twoNotes))"
    "USE_API apiHost"
    by (simp_all add: twoNotes_def note1_def note2_def apiHost_def)
  have b: "selectedNoteId (st twoNotes) = Some ''1''" "error (st twoNotes) = None"
    by (simp_all add: twoNotes_def)
  show ?thesis
    using a b
      selectNote_effect [of JNull localHost twoNotes "''2''"]
      selectNote_effect [of "JStr ''7''" apiHost twoNotes "''2''"]
    by simp
qed

text \<open>
  The claim as the specification words it fails twice. Without an API, selecting a
  record writes to \<open>localStorage\<close>. And \<open>undefined\<close>, which is not \<open>null\<close> and is the id
  of no record, clears the selection and sets no error.
\<close>

theorem selectNote_writes_storage:
  "ls twoNotes = NoItem \<and>
   ls (selectNote localHost (JStr ''2'') twoNotes)
     = Json (stateJson \<lparr>notes = [note1, note2], selectedNoteId = Some ''2'', loading = False,
                         error = None\<rparr>) \<and>
   selectedNoteId (st twoNotes) = Some ''1'' \<and>
   selectedNoteId (st (selectNote localHost JUndefined twoNotes)) = None \<and>
   error (st (selectNote localHost JUndefined twoNotes)) = None"
  by (simp add: selectNote_def st_setState ls_setState persisting_def twoNotes_def localHost_def
        apiHost_def note1_def note2_def)


section \<open>Persisting\<close>

lemma asNote_noteJson: "finiteTimes n \<Longrightarrow> asNote (noteJson n) = Some n"
  by (cases "updatedAt n"; cases "createdAt n")
     (simp_all add: finiteTimes_def asNote_def noteJson_def)

lemma canonical_noteJson: "finiteTimes n \<Longrightarrow> canonicalNote (noteJson n)"
  by (simp add: canonicalNote_def asNote_noteJson)

lemma those_asNote: "list_all finiteTimes ns \<Longrightarrow> those (map (asNote \<circ> noteJson) ns) = Some ns"
  by (induction ns) (simp_all add: asNote_noteJson)

lemma asStringOrNull_optJson: "asStringOrNull (optJson v) = Some v"
  by (cases v) (simp_all add: optJson_def)

lemma optJson_defined: "optJson v \<noteq> JUndefined"
  by (cases v) (simp_all add: optJson_def)

lemma mergePersisted_stateJson:
  assumes "list_all finiteTimes (notes s)"
  shows "mergePersisted (stateJson s) = Some s"
proof -
  have n: "getProp (stateJson s) ''notes'' = JArr (map noteJson (notes s))"
    and l: "getProp (stateJson s) ''loading'' = JBool (loading s)"
    and sel: "getProp (stateJson s) ''selectedNoteId'' = optJson (selectedNoteId s)"
    and e: "getProp (stateJson s) ''error'' = optJson (error s)"
    by (simp_all add: stateJson_def)
  have o: "(case optJson v of JUndefined \<Rightarrow> d | u \<Rightarrow> asStringOrNull u) = Some v" for v d
    by (cases v) (simp_all add: optJson_def)
  show ?thesis
    by (simp add: mergePersisted_def n l sel e o those_asNote [OF assms])
qed

lemma initialState_written:
  "\<not> USE_API h \<Longrightarrow> hasWindow h \<Longrightarrow> list_all finiteTimes (notes s)
     \<Longrightarrow> initialState h (Json (stateJson s)) = Some s"
  by (simp add: initialState_def mergePersisted_stateJson) (simp add: stateJson_def)

text \<open>Without an API the store makes no record with a time that is not finite.\<close>

lemma notes_runAsync:
  "notes (st (snd (runAsync h fn w)))
     = notes (st (snd (fn (setState h (\<lambda>s. s\<lparr>loading := True, error := None\<rparr>) w))))"
  by (simp add: st_runAsync split: prod.splits sum.splits)

lemma finite_addNote_fn:
  "\<not> USE_API h \<Longrightarrow> list_all finiteTimes (notes (st w))
     \<Longrightarrow> list_all finiteTimes (notes (st (snd (addNote_fn h x t c w))))"
  by (simp add: addNote_fn_def Let_def st_setState finiteTimes_def)

lemma finite_updateNote_fn:
  assumes "\<not> USE_API h" and "list_all finiteTimes (notes (st w))"
  shows "list_all finiteTimes (notes (st (snd (updateNote_fn h x i t c w))))"
proof (cases "find (\<lambda>n. JStr (note_id n) = i) (notes (st w))")
  case None
  with assms show ?thesis by (simp add: updateNote_fn_def)
next
  case (Some existing)
  then have "existing \<in> set (notes (st w))"
    by (auto simp: find_Some_iff)
  with assms(2) have "finiteTimes existing"
    by (simp add: list_all_iff)
  with assms Some show ?thesis
    by (auto simp: updateNote_fn_def Let_def st_setState finiteTimes_def list_all_iff)
qed

lemma finite_deleteNote_fn:
  "\<not> USE_API h \<Longrightarrow> list_all finiteTimes (notes (st w))
     \<Longrightarrow> list_all finiteTimes (notes (st (snd (deleteNote_fn h x i w))))"
  by (simp add: deleteNote_fn_def Let_def st_setState list_all_iff)

lemma finite_actions:
  assumes "\<not> USE_API h" and "list_all finiteTimes (notes (st w))"
  shows "list_all finiteTimes (notes (st (snd (addNote h x arg w))))"
    and "list_all finiteTimes (notes (st (snd (updateNote h x i t c w))))"
    and "list_all finiteTimes (notes (st (snd (deleteNote h x i w))))"
    and "list_all finiteTimes (notes (st (snd (loadNotes h x w))))"
proof -
  let ?w1 = "setState h (\<lambda>s. s\<lparr>loading := True, error := None\<rparr>) w"
  have w1: "list_all finiteTimes (notes (st ?w1))"
    using assms(2) by (simp add: st_setState)
  show "list_all finiteTimes (notes (st (snd (addNote h x arg w))))"
  proof (cases "arg = JNull")
    case True
    with assms(2) show ?thesis by (simp add: addNote_def)
  next
    case False
    show ?thesis
      unfolding snd_addNote [OF False] notes_runAsync
      using assms(1) w1 by (rule finite_addNote_fn)
  qed
  show "list_all finiteTimes (notes (st (snd (updateNote h x i t c w))))"
  proof (cases "truthy i")
    case True
    show ?thesis
      unfolding snd_updateNote [OF True] notes_runAsync
      using assms(1) w1 by (rule finite_updateNote_fn)
  next
    case False
    with assms(2) show ?thesis by (simp add: updateNote_def)
  qed
  show "list_all finiteTimes (notes (st (snd (deleteNote h x i w))))"
  proof (cases "truthy i")
    case True
    show ?thesis
      unfolding snd_deleteNote [OF True] notes_runAsync
      using assms(1) w1 by (rule finite_deleteNote_fn)
  next
    case False
    with assms(2) show ?thesis by (simp add: deleteNote_def)
  qed
  show "list_all finiteTimes (notes (st (snd (loadNotes h x w))))"
    unfolding snd_loadNotes notes_runAsync
    using assms(1) w1 by (simp add: st_loadNotes_fn)
qed

lemma written_actions:
  assumes "persisting h"
  shows "arg \<noteq> JNull \<Longrightarrow>
           ls (snd (addNote h x arg w)) = Json (stateJson (st (snd (addNote h x arg w))))"
    and "truthy i \<Longrightarrow> ls (snd (updateNote h x i t c w))
           = Json (stateJson (st (snd (updateNote h x i t c w))))"
    and "truthy i \<Longrightarrow> ls (snd (deleteNote h x i w))
           = Json (stateJson (st (snd (deleteNote h x i w))))"
    and "ls (snd (loadNotes h x w)) = Json (stateJson (st (snd (loadNotes h x w))))"
  using assms by (simp_all add: snd_addNote snd_updateNote snd_deleteNote snd_loadNotes ls_runAsync)

lemma unread_actions:
  "fst (addNote h x arg (w\<lparr>ls := b\<rparr>)) = fst (addNote h x arg w)"
  "st (snd (addNote h x arg (w\<lparr>ls := b\<rparr>))) = st (snd (addNote h x arg w))"
  "fst (updateNote h x i t c (w\<lparr>ls := b\<rparr>)) = fst (updateNote h x i t c w)"
  "st (snd (updateNote h x i t c (w\<lparr>ls := b\<rparr>))) = st (snd (updateNote h x i t c w))"
  "fst (deleteNote h x i (w\<lparr>ls := b\<rparr>)) = fst (deleteNote h x i w)"
  "st (snd (deleteNote h x i (w\<lparr>ls := b\<rparr>))) = st (snd (deleteNote h x i w))"
  "fst (loadNotes h x (w\<lparr>ls := b\<rparr>)) = fst (loadNotes h x w)"
  "st (snd (loadNotes h x (w\<lparr>ls := b\<rparr>))) = st (snd (loadNotes h x w))"
proof -
  have w: "st (w\<lparr>ls := b\<rparr>) = st w" by simp
  have h: "h\<lparr>setItemOk := setItemOk h\<rparr> = h" by simp
  note a = addNote_cong [OF w, where h = h and q = "setItemOk h", unfolded h]
    and u = updateNote_cong [OF w, where h = h and q = "setItemOk h", unfolded h]
    and d = deleteNote_cong [OF w, where h = h and q = "setItemOk h", unfolded h]
    and l = loadNotes_cong [OF w, where h = h and q = "setItemOk h", unfolded h]
  show "fst (addNote h x arg (w\<lparr>ls := b\<rparr>)) = fst (addNote h x arg w)"
    "st (snd (addNote h x arg (w\<lparr>ls := b\<rparr>))) = st (snd (addNote h x arg w))"
    "fst (updateNote h x i t c (w\<lparr>ls := b\<rparr>)) = fst (updateNote h x i t c w)"
    "st (snd (updateNote h x i t c (w\<lparr>ls := b\<rparr>))) = st (snd (updateNote h x i t c w))"
    "fst (deleteNote h x i (w\<lparr>ls := b\<rparr>)) = fst (deleteNote h x i w)"
    "st (snd (deleteNote h x i (w\<lparr>ls := b\<rparr>))) = st (snd (deleteNote h x i w))"
    "fst (loadNotes h x (w\<lparr>ls := b\<rparr>)) = fst (loadNotes h x w)"
    "st (snd (loadNotes h x (w\<lparr>ls := b\<rparr>))) = st (snd (loadNotes h x w))"
    by (simp_all add: a u d l)
qed

text \<open>
  Claim C9, as the code has it. Without an API, in a window whose storage accepts the
  write, every action ends by writing the state it leaves under the storage key: so
  after every successful \<open>addNote\<close>, \<open>updateNote\<close> and \<open>deleteNote\<close> the persisted value
  is the state, \<open>notes\<close> in full. A record whose two times are finite is written in
  the canonical shape, and without an API the store keeps the times finite. On any
  other host (with an API, outside a window, or with a storage that refuses the write)
  the actions leave the persisted value as it was. The persisted value is read when
  the initial state is made: what was written comes back as the state it was written
  from; an absent or unparsable value, or one that is no object, gives the defaults,
  as does every value with an API or outside a window. No action reads it: what an
  action returns and the state it leaves do not depend on the persisted value.
\<close>

theorem local_state_persisted:
  "(persisting h \<longrightarrow>
      (arg \<noteq> JNull \<longrightarrow>
         ls (snd (addNote h x arg w)) = Json (stateJson (st (snd (addNote h x arg w))))) \<and>
      (truthy i \<longrightarrow>
         ls (snd (updateNote h x i t c w))
           = Json (stateJson (st (snd (updateNote h x i t c w)))) \<and>
         ls (snd (deleteNote h x i w)) = Json (stateJson (st (snd (deleteNote h x i w))))) \<and>
      ls (snd (loadNotes h x w)) = Json (stateJson (st (snd (loadNotes h x w))))) \<and>
   (\<not> persisting h \<longrightarrow>
      ls (snd (addNote h x arg w)) = ls w \<and>
      ls (snd (updateNote h x i t c w)) = ls w \<and>
      ls (snd (deleteNote h x i w)) = ls w \<and>
      ls (snd (loadNotes h x w)) = ls w) \<and>
   getProp (stateJson s) ''notes'' = JArr (map noteJson (notes s)) \<and>
   (finiteTimes n \<longrightarrow> canonicalNote (noteJson n)) \<and>
   (\<not> USE_API h \<and> list_all finiteTimes (notes (st w)) \<longrightarrow>
      list_all finiteTimes (notes (st (snd (addNote h x arg w)))) \<and>
      list_all finiteTimes (notes (st (snd (updateNote h x i t c w)))) \<and>
      list_all finiteTimes (notes (st (snd (deleteNote h x i w)))) \<and>
      list_all finiteTimes (notes (st (snd (loadNotes h x w))))) \<and>
   (\<not> USE_API h \<and> hasWindow h \<and> list_all finiteTimes (notes s) \<longrightarrow>
      initialState h (Json (stateJson s)) = Some s) \<and>
   (\<not> isObject v \<longrightarrow> initialState h (Json v) = Some defaultState) \<and>
   initialState h NoItem = Some defaultState \<and>
   initialState h BadText = Some defaultState \<and>
   (USE_API h \<or> \<not> hasWindow h \<longrightarrow> initialState h it = Some defaultState) \<and>
   fst (addNote h x arg (w\<lparr>ls := b\<rparr>)) = fst (addNote h x arg w) \<and>
   st (snd (addNote h x arg (w\<lparr>ls := b\<rparr>))) = st (snd (addNote h x arg w)) \<and>
   fst (updateNote h x i t c (w\<lparr>ls := b\<rparr>)) = fst (updateNote h x i t c w) \<and>
   st (snd (updateNote h x i t c (w\<lparr>ls := b\<rparr>))) = st (snd (updateNote h x i t c w)) \<and>
   fst (deleteNote h x i (w\<lparr>ls := b\<rparr>)) = fst (deleteNote h x i w) \<and>
   st (snd (deleteNote h x i (w\<lparr>ls := b\<rparr>))) = st (snd (deleteNote h x i w)) \<and>
   fst (loadNotes h x (w\<lparr>ls := b\<rparr>)) = fst (loadNotes h x w) \<and>
   st (snd (loadNotes h x (w\<lparr>ls := b\<rparr>))) = st (snd (loadNotes h x w))"
proof -
  have on: "(arg \<noteq> JNull \<longrightarrow>
         ls (snd (addNote h x arg w)) = Json (stateJson (st (snd (addNote h x arg w))))) \<and>
      (truthy i \<longrightarrow>
         ls (snd (updateNote h x i t c w))
           = Json (stateJson (st (snd (updateNote h x i t c w)))) \<and>
         ls (snd (deleteNote h x i w)) = Json (stateJson (st (snd (deleteNote h x i w))))) \<and>
      ls (snd (loadNotes h x w)) = Json (stateJson (st (snd (loadNotes h x w))))"
    if "persisting h"
    using written_actions [OF that] by blast
  have off: "ls (snd (addNote h x arg w)) = ls w \<and>
      ls (snd (updateNote h x i t c w)) = ls w \<and>
      ls (snd (deleteNote h x i w)) = ls w \<and>
      ls (snd (loadNotes h x w)) = ls w"
    if "\<not> persisting h"
    using ls_actions_off [OF that] by blast
  have arr: "getProp (stateJson s) ''notes'' = JArr (map noteJson (notes s))"
    by (simp add: stateJson_def)
  have can: "canonicalNote (noteJson n)" if "finiteTimes n"
    using that by (rule canonical_noteJson)
  have fin: "list_all finiteTimes (notes (st (snd (addNote h x arg w)))) \<and>
      list_all finiteTimes (notes (st (snd (updateNote h x i t c w)))) \<and>
      list_all finiteTimes (notes (st (snd (deleteNote h x i w)))) \<and>
      list_all finiteTimes (notes (st (snd (loadNotes h x w))))"
    if "\<not> USE_API h \<and> list_all finiteTimes (notes (st w))"
    using that finite_actions [of h w] by blast
  have again: "initialState h (Json (stateJson s)) = Some s"
    if "\<not> USE_API h \<and> hasWindow h \<and> list_all finiteTimes (notes s)"
    using that by (simp add: initialState_written)
  have none: "initialState h (Json v) = Some defaultState" if "\<not> isObject v"
    using that by (simp add: initialState_def)
  have dflt: "initialState h NoItem = Some defaultState"
    "initialState h BadText = Some defaultState"
    by (simp_all add: initialState_def)
  have api: "initialState h it = Some defaultState" if "USE_API h \<or> \<not> hasWindow h"
    using that by (auto simp: initialState_def)
  note un = unread_actions
  show ?thesis
    apply (intro conjI)
                      apply (rule impI, erule on)
                     apply (rule impI, erule off)
                    apply (rule arr)
                   apply (rule impI, erule can)
                  apply (rule impI, erule fin)
                 apply (rule impI, erule again)
                apply (rule impI, erule none)
               apply (rule dflt(1))
              apply (rule dflt(2))
             apply (rule impI, erule api)
            apply (rule un(1))
           apply (rule un(2))
          apply (rule un(3))
         apply (rule un(4))
        apply (rule un(5))
       apply (rule un(6))
      apply (rule un(7))
     apply (rule un(8))
    done
qed

theorem local_state_persisted_witness:
  "persisting localHost \<and> \<not> persisting apiHost \<and> truthy (JStr ''1'') \<and>
   groceries \<noteq> JNull \<and> \<not> USE_API localHost \<and> hasWindow localHost \<and> USE_API apiHost \<and>
   list_all finiteTimes (notes (st twoNotes)) \<and> finiteTimes note2 \<and> \<not> isObject (JNum (Num 5)) \<and>
   ls (snd (deleteNote localHost (sampleIo (Rejected NonError)) (JStr ''1'') twoNotes))
     = Json (stateJson \<lparr>notes = [note2], selectedNoteId = Some ''2'', loading = False,
                         error = None\<rparr>) \<and>
   ls (snd (addNote localHost (sampleIo (Rejected NonError)) groceries twoNotes))
     = Json (stateJson (st (snd (addNote localHost (sampleIo (Rejected NonError)) groceries
                                   twoNotes)))) \<and>
   ls (snd (deleteNote apiHost (sampleIo (Rejected NonError)) (JStr ''1'') twoNotes)) = NoItem \<and>
   canonicalNote (noteJson note2) \<and>
   list_all finiteTimes
     (notes (st (snd (addNote localHost (sampleIo (Rejected NonError)) groceries twoNotes)))) \<and>
   initialState localHost (Json (stateJson (st twoNotes))) = Some (st twoNotes) \<and>
   initialState localHost (Json (JNum (Num 5))) = Some defaultState \<and>
   initialState apiHost (Json (stateJson (st twoNotes))) = Some defaultState"
proof -
  let ?x = "sampleIo (Rejected NonError)"
  have l: "persisting localHost" "\<not> persisting apiHost" "truthy (JStr ''1'')"
    "groceries \<noteq> JNull" "\<not> USE_API localHost" "hasWindow localHost" "USE_API apiHost"
    "list_all finiteTimes (notes (st twoNotes))" "finiteTimes note2" "\<not> isObject (JNum (Num 5))"
    by (simp_all add: persisting_def localHost_def apiHost_def groceries_def twoNotes_def
          finiteTimes_def note1_def note2_def)
  have "fst (runAsync localHost (deleteNote_fn localHost ?x (JStr ''1'')) twoNotes) = Inr True"
    by (simp add: fst_runAsync deleteNote_fn_def localHost_def apiHost_def st_setState
          twoNotes_def note1_def note2_def Let_def)
  from st_runAsync_deleteNote [OF this]
  have d: "st (snd (deleteNote localHost ?x (JStr ''1'') twoNotes))
             = \<lparr>notes = [note2], selectedNoteId = Some ''2'', loading = False, error = None\<rparr>"
    by (simp add: snd_deleteNote twoNotes_def note1_def note2_def idVal_def)
  have e: "ls twoNotes = NoItem" by (simp add: twoNotes_def)
  note L = local_state_persisted [where h = localHost and x = ?x and arg = groceries
      and w = twoNotes and i = "JStr ''1''" and s = "st twoNotes" and n = note2
      and v = "JNum (Num 5)"]
  note A = local_state_persisted [where h = apiHost and x = ?x and arg = groceries
      and w = twoNotes and i = "JStr ''1''" and s = "st twoNotes" and n = note2
      and v = "JNum (Num 5)" and it = "Json (stateJson (st twoNotes))"]
  from L l have 1:
    "ls (snd (deleteNote localHost ?x (JStr ''1'') twoNotes))
       = Json (stateJson (st (snd (deleteNote localHost ?x (JStr ''1'') twoNotes))))"
    "ls (snd (addNote localHost ?x groceries twoNotes))
       = Json (stateJson (st (snd (addNote localHost ?x groceries twoNotes))))"
    "canonicalNote (noteJson note2)"
    "list_all finiteTimes (notes (st (snd (addNote localHost ?x groceries twoNotes))))"
    "initialState localHost (Json (stateJson (st twoNotes))) = Some (st twoNotes)"
    "initialState localHost (Json (JNum (Num 5))) = Some defaultState"
    by blast+
  from A l e have 2:
    "ls (snd (deleteNote apiHost ?x (JStr ''1'') twoNotes)) = NoItem"
    "initialState apiHost (Json (stateJson (st twoNotes))) = Some defaultState"
    by simp_all
  from l 1 2 d show ?thesis by simp
qed

text \<open>
  The claim as the specification words it fails without an API where there is no
  window, and where the storage refuses the write: a record is added, or deleted, the
  action succeeds, and the persisted value is what it was before.
\<close>

theorem blob_not_written:
  "\<not> USE_API nodeHost \<and>
   fst (addNote nodeHost (sampleIo (Rejected NonError)) groceries emptyStore)
     = Inr (Some \<lparr>note_id = ''K0'', title = ''Groceries'', content = ''Milk, eggs'',
                   updatedAt = Num 1000, createdAt = Num 1000\<rparr>) \<and>
   ls (snd (addNote nodeHost (sampleIo (Rejected NonError)) groceries emptyStore)) = NoItem \<and>
   \<not> USE_API fullHost \<and>
   fst (deleteNote fullHost (sampleIo (Rejected NonError)) (JStr ''1'')
          (twoNotes\<lparr>ls := Json (stateJson (st twoNotes))\<rparr>)) = Inr True \<and>
   notes (st (snd (deleteNote fullHost (sampleIo (Rejected NonError)) (JStr ''1'')
                     (twoNotes\<lparr>ls := Json (stateJson (st twoNotes))\<rparr>)))) = [note2] \<and>
   ls (snd (deleteNote fullHost (sampleIo (Rejected NonError)) (JStr ''1'')
              (twoNotes\<lparr>ls := Json (stateJson (st twoNotes))\<rparr>)))
     = Json (stateJson \<lparr>notes = [note1, note2], selectedNoteId = Some ''1'', loading = False,
                         error = None\<rparr>)"
proof -
  let ?x = "sampleIo (Rejected NonError)"
  let ?w = "twoNotes\<lparr>ls := Json (stateJson (st twoNotes))\<rparr>"
  have h: "\<not> USE_API nodeHost" "\<not> USE_API fullHost" "\<not> persisting nodeHost"
    "\<not> persisting fullHost" "groceries \<noteq> JNull" "truthy (JStr ''1'')"
    by (simp_all add: persisting_def nodeHost_def fullHost_def localHost_def apiHost_def
          groceries_def)
  have u: "uid ?x 0 = ''K0''" by code_simp
  have a: "fst (addNote nodeHost ?x groceries emptyStore)
      = Inr (Some \<lparr>note_id = ''K0'', title = ''Groceries'', content = ''Milk, eggs'',
                    updatedAt = Num 1000, createdAt = Num 1000\<rparr>)"
    by (simp add: fst_addNote fst_runAsync addNote_fn_local h paramOr_groceries js_String_JStr u)
       (simp add: sampleIo_def)
  have run: "fst (runAsync fullHost (deleteNote_fn fullHost ?x (JStr ''1'')) ?w) = Inr True"
    by (simp add: fst_runAsync deleteNote_fn_def h st_setState twoNotes_def note1_def note2_def
          Let_def)
  from st_runAsync_deleteNote [OF run]
  have d: "notes (st (snd (deleteNote fullHost ?x (JStr ''1'') ?w))) = [note2]"
    by (simp add: snd_deleteNote twoNotes_def note1_def note2_def)
  have "ls (snd (addNote nodeHost ?x groceries emptyStore)) = ls emptyStore"
    "ls (snd (deleteNote fullHost ?x (JStr ''1'') ?w)) = ls ?w"
    using h by (simp_all add: ls_actions_off)
  with h a run d show ?thesis
    by (simp add: fst_deleteNote emptyStore_def twoNotes_def)
qed

section \<open>Loading\<close>

lemma st_runAsync_loadNotes:
  "st (snd (runAsync h (loadNotes_fn h x) w)) =
     (if \<not> USE_API h then (st w)\<lparr>loading := False, error := None\<rparr>
      else (case apiFetch (fetched x) of
              Inl e \<Rightarrow> (st w)\<lparr>loading := False, error := Some (failureMessage e)\<rparr>
            | Inr (JArr xs) \<Rightarrow>
                (st w)\<lparr>notes := map (\<lambda>(i, n). normalizeNote h x i n)
                                   (enumerate 0 (filter isObject xs)),
                       loading := False, error := None\<rparr>
            | Inr _ \<Rightarrow>
                (st w)\<lparr>loading := False,
                       error := Some ''Invalid response from server.''\<rparr>))"
  by (simp add: st_runAsync loadNotes_fn_def st_emit st_setState
        split: prod.splits sum.splits jsval.splits)




section \<open>The sorted view where times are infinite\<close>

text \<open>
  Claim C7. The claim holds of every state whose times are finite (the lemmas on the
  sorted view), and scenario B is one: the records \<open>1\<close>, updated at 100, and \<open>2\<close>,
  updated at 200, come out as \<open>2\<close>, \<open>1\<close>. Titles are compared with their case folded:
  \<open>a\<close> comes before \<open>B\<close> at equal times, in whichever order the two are held. The
  claim fails of the comparator where two records have the same infinite time, as
  they have after \<open>loadNotes\<close> when the answer gives \<open>updatedAt\<close> as a number beyond the
  largest finite one: their difference is \<open>NaN\<close>, which is not \<open>0\<close>, so the titles are
  never compared and the sort leaves the two as they are held, \<open>b\<close> before \<open>a\<close>, against
  the order the specification states.
\<close>

theorem sortedNotes_infinite_times_skip_titles:
  "notes (st (snd (loadNotes apiHost
      (sampleIo (Response True 200 None (Some (JArr
         [JObj [(''id'', JStr ''1''), (''title'', JStr ''b''), (''content'', JStr []),
                (''updatedAt'', JNum PosInf), (''createdAt'', JNum (Num 1))],
          JObj [(''id'', JStr ''2''), (''title'', JStr ''a''), (''content'', JStr []),
                (''updatedAt'', JNum PosInf), (''createdAt'', JNum (Num 1))]]))))
      emptyStore))) = [everB, everA] \<and>
   compareNotes apiHost everB everA = NaN \<and>
   map note_id (sortedNotes apiHost (holding [everB, everA])) = [''1'', ''2''] \<and>
   map title (sortedNotes apiHost (holding [everB, everA])) = [''b'', ''a''] \<and>
   \<not> sorted_wrt (specOrder apiHost) (sortedNotes apiHost (holding [everB, everA])) \<and>
   sorted_wrt (specOrder apiHost) [everA, everB] \<and>
   map title (sortedNotes apiHost (holding [onceB, onceA])) = [''a'', ''B''] \<and>
   map title (sortedNotes apiHost (holding [onceA, onceB])) = [''a'', ''B''] \<and>
   map note_id (sortedNotes apiHost (holding [note1, note2])) = [''2'', ''1'']"
proof -
  let ?b = "JObj [(''id'', JStr ''1''), (''title'', JStr ''b''), (''content'', JStr []),
                  (''updatedAt'', JNum PosInf), (''createdAt'', JNum (Num 1))]"
  let ?a = "JObj [(''id'', JStr ''2''), (''title'', JStr ''a''), (''content'', JStr []),
                  (''updatedAt'', JNum PosInf), (''createdAt'', JNum (Num 1))]"
  let ?x = "sampleIo (Response True 200 None (Some (JArr [?b, ?a])))"
  have f: "USE_API apiHost" "apiFetch (fetched ?x) = Inr (JArr [?b, ?a])"
    by (simp_all add: apiHost_def sampleIo_def)
  have n: "normalizeNote apiHost ?x i ?b = everB" "normalizeNote apiHost ?x i ?a = everA" for i
    by (simp_all add: normalizeNote_def js_String_def js_Number_def everA_def everB_def)
  have l: "notes (st (snd (loadNotes apiHost ?x emptyStore))) = [everB, everA]"
    by (simp add: snd_loadNotes st_runAsync_loadNotes f n)
  have a: "compareNotes apiHost everB everA = NaN"
    by (simp add: compareNotes_def everA_def everB_def)
  have b: "sortedNotes apiHost (holding [everB, everA]) = [everB, everA]"
    by (simp add: sortedNotes_def holding_def a)
  have c: "\<not> specOrder apiHost everB everA" "specOrder apiHost everA everB"
    by code_simp+
  have d: "sortedNotes apiHost (holding [onceB, onceA]) = [onceA, onceB]"
    "sortedNotes apiHost (holding [onceA, onceB]) = [onceA, onceB]"
    by code_simp+
  have e: "map note_id (sortedNotes apiHost (holding [note1, note2])) = [''2'', ''1'']"
    by (simp add: sortedNotes_def holding_def compareNotes_def note1_def note2_def)
  have t: "map note_id [everB, everA] = [''1'', ''2'']" "map title [everB, everA] = [''b'', ''a'']"
    "map title [onceA, onceB] = [''a'', ''B'']"
    by (simp_all add: everA_def everB_def onceA_def onceB_def)
  from l a c e t show ?thesis
    by (simp add: b d)
qed

end
